theory Spec2Isabelle
  imports Complex_Main "HOL-Library.Word"
begin

section \<open>brickify: grid sizing, coordinate scaling and the brick-painting pipeline\<close>

text \<open>
  A shallow embedding of \<^verbatim>\<open>dist/jquery.brickify.js\<close>.

  JavaScript numbers are IEEE-754 doubles.  A finite number is embedded as the \<^typ>\<open>real\<close>
  that is its value; \<^verbatim>\<open>NaN\<close> and the infinities, which the plugin's arithmetic can
  produce, are the extra constructors of \<open>jsnum\<close>.  The result of a multiplication, a
  division or a subtraction is the exact result rounded to the nearest double (\<open>fl\<close>): ties
  go to the even significand, magnitudes below \<open>2\<^sup>-\<^sup>1\<^sup>0\<^sup>2\<^sup>2\<close> are rounded on the subnormal grid
  of spacing \<open>2\<^sup>-\<^sup>1\<^sup>0\<^sup>7\<^sup>4\<close>, and a result that rounds to \<open>2\<^sup>1\<^sup>0\<^sup>2\<^sup>4\<close> or more is an infinity.  The
  sign of zero is not part of the embedding.  Option values (\<open>originalBricksize\<close>, \<open>ratio\<close>,
  the bounds of a threshold) are finite numbers; a property that a threshold leaves out
  (\<^verbatim>\<open>typeof x === "undefined"\<close>) is \<open>None\<close>.

  The plugin is applied to image elements; the \<^verbatim>\<open>width\<close> and \<^verbatim>\<open>height\<close> of
  an \<^verbatim>\<open>HTMLImageElement\<close> are of the DOM type \<^verbatim>\<open>unsigned long\<close>, a 32-bit unsigned
  integer.
\<close>

subsection \<open>Doubles\<close>

datatype jsnum = Num real | NaN | PosInf | NegInf

datatype error = TypeError

text \<open>The number of binary digits of a positive integer.\<close>

function bitLength :: "int \<Rightarrow> nat" where
  "bitLength n = (if n < 1 then 0 else Suc (bitLength (n div 2)))"
  by pat_completeness auto
termination
  by (relation "measure nat") auto

declare bitLength.simps [simp del]

text \<open>
  The binary exponent of a positive real \<open>a\<close>: the integer \<open>e\<close> with \<open>2\<^sup>e \<le> a < 2\<^sup>e\<^sup>+\<^sup>1\<close>.  For
  \<open>a \<ge> 1\<close> it is one less than the number of binary digits of \<open>\<lfloor>a\<rfloor>\<close>.  For \<open>a < 1\<close> and \<open>l\<close> the
  number of binary digits of \<open>\<lfloor>1 / a\<rfloor>\<close>, \<open>a\<close> lies in \<open>(2\<^sup>-\<^sup>l, 2\<^sup>1\<^sup>-\<^sup>l]\<close>, and the exponent is
  \<open>1 - l\<close> at the upper end and \<open>- l\<close> below it.
\<close>

definition expo :: "real \<Rightarrow> int" where
  "expo a =
     (if 1 \<le> a then int (bitLength \<lfloor>a\<rfloor>) - 1
      else if 1 \<le> a * 2 ^ (bitLength \<lfloor>1 / a\<rfloor> - 1) then 1 - int (bitLength \<lfloor>1 / a\<rfloor>)
      else - int (bitLength \<lfloor>1 / a\<rfloor>))"

text \<open>The spacing of the doubles around a positive real: 52 binary places below its
  exponent, and \<open>2\<^sup>-\<^sup>1\<^sup>0\<^sup>7\<^sup>4\<close> in the subnormal range.\<close>

definition ulp :: "real \<Rightarrow> real" where
  "ulp a = 2 powi (max (expo a) (- 1022) - 52)"

text \<open>The nearest integer, a tie going to the even one.\<close>

definition rnd_even :: "real \<Rightarrow> int" where
  "rnd_even m =
     (if m - of_int \<lfloor>m\<rfloor> < 1 / 2 then \<lfloor>m\<rfloor>
      else if 1 / 2 < m - of_int \<lfloor>m\<rfloor> then \<lfloor>m\<rfloor> + 1
      else if even \<lfloor>m\<rfloor> then \<lfloor>m\<rfloor> else \<lfloor>m\<rfloor> + 1)"

text \<open>Rounding of an exact result to the nearest double.\<close>

definition fl :: "real \<Rightarrow> jsnum" where
  "fl x =
     (if x = 0 then Num 0
      else if 2 ^ 1024 \<le> of_int (rnd_even (\<bar>x\<bar> / ulp \<bar>x\<bar>)) * ulp \<bar>x\<bar>
      then (if x < 0 then NegInf else PosInf)
      else Num ((if x < 0 then - 1 else 1) * (of_int (rnd_even (\<bar>x\<bar> / ulp \<bar>x\<bar>)) * ulp \<bar>x\<bar>)))"

subsection \<open>Arithmetic\<close>

text \<open>\<^verbatim>\<open>x * y\<close> for a finite \<open>x\<close>.\<close>

fun js_mul :: "real \<Rightarrow> jsnum \<Rightarrow> jsnum" where
  "js_mul x (Num y) = fl (x * y)"
| "js_mul x NaN = NaN"
| "js_mul x PosInf = (if 0 < x then PosInf else if x < 0 then NegInf else NaN)"
| "js_mul x NegInf = (if 0 < x then NegInf else if x < 0 then PosInf else NaN)"

text \<open>\<^verbatim>\<open>x / y\<close> for a finite \<open>y\<close>.\<close>

fun js_div :: "jsnum \<Rightarrow> real \<Rightarrow> jsnum" where
  "js_div (Num x) y =
     (if y \<noteq> 0 then fl (x / y)
      else if 0 < x then PosInf
      else if x < 0 then NegInf
      else NaN)"
| "js_div NaN y = NaN"
| "js_div PosInf y = (if y < 0 then NegInf else PosInf)"
| "js_div NegInf y = (if y < 0 then PosInf else NegInf)"

text \<open>\<^verbatim>\<open>x - y\<close> for a finite \<open>x\<close>.\<close>

fun js_sub :: "real \<Rightarrow> jsnum \<Rightarrow> jsnum" where
  "js_sub x (Num y) = fl (x - y)"
| "js_sub x NaN = NaN"
| "js_sub x PosInf = NegInf"
| "js_sub x NegInf = PosInf"

text \<open>The integer part of a finite number, rounding toward zero.\<close>

definition js_trunc :: "real \<Rightarrow> int" where
  "js_trunc x = (if x < 0 then - \<lfloor>- x\<rfloor> else \<lfloor>x\<rfloor>)"

text \<open>
  \<^verbatim>\<open>x % y\<close>: the remainder of the truncating division, which has the sign of the dividend
  and is computed without rounding; the dividend itself when the divisor is infinite;
  \<^verbatim>\<open>NaN\<close> when the divisor is zero or an operand is \<^verbatim>\<open>NaN\<close> or the dividend is infinite.
\<close>

fun js_rem :: "jsnum \<Rightarrow> jsnum \<Rightarrow> jsnum" where
  "js_rem (Num x) (Num y) = (if y = 0 then NaN else Num (x - y * of_int (js_trunc (x / y))))"
| "js_rem (Num x) PosInf = Num x"
| "js_rem (Num x) NegInf = Num x"
| "js_rem (Num x) NaN = NaN"
| "js_rem NaN y = NaN"
| "js_rem PosInf y = NaN"
| "js_rem NegInf y = NaN"

text \<open>\<^verbatim>\<open>x <= y\<close>, \<^verbatim>\<open>x < y\<close> and \<^verbatim>\<open>x > y\<close> for a finite \<open>y\<close>; every comparison with
  \<^verbatim>\<open>NaN\<close> is false.\<close>

fun js_le :: "jsnum \<Rightarrow> real \<Rightarrow> bool" where
  "js_le (Num x) y = (x \<le> y)"
| "js_le NaN y = False"
| "js_le PosInf y = False"
| "js_le NegInf y = True"

fun js_lt :: "jsnum \<Rightarrow> real \<Rightarrow> bool" where
  "js_lt (Num x) y = (x < y)"
| "js_lt NaN y = False"
| "js_lt PosInf y = False"
| "js_lt NegInf y = True"

fun js_gt :: "jsnum \<Rightarrow> real \<Rightarrow> bool" where
  "js_gt (Num x) y = (y < x)"
| "js_gt NaN y = False"
| "js_gt PosInf y = True"
| "js_gt NegInf y = False"

text \<open>
  \<^verbatim>\<open>Math.round\<close>: the nearest integer, a tie going to the larger one
  (\<open>\<lfloor>x + 1/2\<rfloor>\<close>, taken of the exact sum); \<^verbatim>\<open>NaN\<close> and the infinities are returned as
  they are.
\<close>

fun Math_round :: "jsnum \<Rightarrow> jsnum" where
  "Math_round (Num x) = Num (of_int \<lfloor>x + 1 / 2\<rfloor>)"
| "Math_round NaN = NaN"
| "Math_round PosInf = PosInf"
| "Math_round NegInf = NegInf"

subsection \<open>\<^verbatim>\<open>parseInt\<close> of a number\<close>

text \<open>
  \<^verbatim>\<open>parseInt(x, 10)\<close> first converts the number \<open>x\<close> to a string and then reads an optional
  sign and the decimal digits that follow it, stopping at the first other character; without
  a digit the result is \<^verbatim>\<open>NaN\<close>.  The string of a double holds the digits of the
  shortest decimal that rounds to it.

  The string is in positional notation when that decimal is at least \<open>10\<^sup>-\<^sup>6\<close> and less than
  \<open>10\<^sup>2\<^sup>1\<close>; for a double this is when its magnitude is at least the double nearest to
  \<open>10\<^sup>-\<^sup>6\<close>, which is \<open>4722366482869645 / 2\<^sup>7\<^sup>2\<close>, and less than \<open>10\<^sup>2\<^sup>1\<close>.  The digits read are
  then the integer part of the decimal, and the number that \<^verbatim>\<open>parseInt\<close> returns is the
  integer part of the double.

  Otherwise the string is in exponent notation (\<^verbatim>\<open>"5e-7"\<close>, \<^verbatim>\<open>"1.5e+21"\<close>) and the
  digits read are the single digit before the point.  That is the leading digit \<open>d\<close> of the
  double's own value, unless the next one-digit decimal above it, \<open>(d + 1) * 10\<^sup>p\<close>, rounds to
  the double and so is its shortest decimal; then the digit is \<open>d + 1\<close>, or 1 after 9.

  \<open>leadDigit n\<close> is the first decimal digit of a positive integer and \<open>numDigits n\<close> the
  number of its digits.  For \<open>0 < a < 10\<^sup>-\<^sup>6\<close> and \<open>k\<close> the number of digits of \<open>\<lfloor>1 / a\<rfloor>\<close>,
  the product \<open>a * 10\<^sup>k\<close> lies in \<open>(1, 10]\<close>, so the leading digit of \<open>a\<close> is that of its floor.
\<close>

function leadDigit :: "int \<Rightarrow> int" where
  "leadDigit n = (if n < 10 then n else leadDigit (n div 10))"
  by pat_completeness auto
termination
  by (relation "measure nat") auto

function numDigits :: "int \<Rightarrow> nat" where
  "numDigits n = (if n < 10 then 1 else Suc (numDigits (n div 10)))"
  by pat_completeness auto
termination
  by (relation "measure nat") auto

declare leadDigit.simps [simp del] numDigits.simps [simp del]

definition positional :: "real \<Rightarrow> bool" where
  "positional a = (4722366482869645 / 2 ^ 72 \<le> a \<and> a < 10 ^ 21)"

definition bumped :: "int \<Rightarrow> real \<Rightarrow> real \<Rightarrow> int" where
  "bumped d b a = (if fl b = Num a then (if d = 9 then 1 else d + 1) else d)"

definition exponentDigit :: "real \<Rightarrow> int" where
  "exponentDigit a =
     (if 10 ^ 21 \<le> a
      then bumped (leadDigit \<lfloor>a\<rfloor>)
             (of_int (leadDigit \<lfloor>a\<rfloor> + 1) * 10 ^ (numDigits \<lfloor>a\<rfloor> - 1)) a
      else bumped (leadDigit \<lfloor>a * 10 ^ numDigits \<lfloor>1 / a\<rfloor>\<rfloor>)
             (of_int (leadDigit \<lfloor>a * 10 ^ numDigits \<lfloor>1 / a\<rfloor>\<rfloor> + 1) / 10 ^ numDigits \<lfloor>1 / a\<rfloor>) a)"

definition parseIntNum :: "real \<Rightarrow> int" where
  "parseIntNum x =
     (if x = 0 then 0
      else if positional \<bar>x\<bar> then js_trunc x
      else (if x < 0 then - 1 else 1) * exponentDigit \<bar>x\<bar>)"

fun parseInt :: "jsnum \<Rightarrow> jsnum" where
  "parseInt (Num x) = Num (of_int (parseIntNum x))"
| "parseInt NaN = NaN"
| "parseInt PosInf = NaN"
| "parseInt NegInf = NaN"

subsection \<open>Settings and the image element\<close>

record threshold =
  maxImageWidth :: real
  minBrickSize :: "real option"
  maxBrickSize :: "real option"

record settings =
  originalBricksize :: real
  ratio :: real
  thresholds :: "threshold list"

text \<open>The default \<^verbatim>\<open>ratio: 1/40\<close> is the double that the division yields,
  \<open>3602879701896397 / 2\<^sup>5\<^sup>7\<close>.\<close>

definition defaults :: settings where
  "defaults =
     \<lparr> originalBricksize = 73,
       ratio = 3602879701896397 / 2 ^ 57,
       thresholds =
         [ \<lparr> maxImageWidth = 300, minBrickSize = Some 7, maxBrickSize = Some 15 \<rparr>,
           \<lparr> maxImageWidth = 1200, minBrickSize = Some 15, maxBrickSize = Some 26 \<rparr>,
           \<lparr> maxImageWidth = 1600, minBrickSize = None, maxBrickSize = Some 36 \<rparr> ] \<rparr>"

record image_element =
  width :: "32 word"
  height :: "32 word"
  src :: string

subsection \<open>The grid sizer\<close>

text \<open>
  The \<^verbatim>\<open>$(thresholds).each\<close> loop of \<^verbatim>\<open>_getGridSize\<close>: it visits every threshold in
  order (the callback never returns \<^verbatim>\<open>false\<close>) and carries \<^verbatim>\<open>hasThresholdMatch\<close>
  and \<^verbatim>\<open>threshold\<close>.
\<close>

fun eachThreshold :: "real \<Rightarrow> threshold list \<Rightarrow> bool \<times> threshold option \<Rightarrow> bool \<times> threshold option" where
  "eachThreshold imageWidth [] st = st"
| "eachThreshold imageWidth (this # rest) (hasThresholdMatch, threshold) =
     eachThreshold imageWidth rest
       (if \<not> hasThresholdMatch \<and> imageWidth \<le> maxImageWidth this
        then (True, Some this)
        else (hasThresholdMatch, threshold))"

text \<open>
  The threshold that \<^verbatim>\<open>_getGridSize\<close> clamps with.  When nothing matched it is
  \<^verbatim>\<open>thresholds[thresholds.length-1]\<close>, which is \<^verbatim>\<open>undefined\<close> (\<open>None\<close>) for an empty
  array.
\<close>

definition selectThreshold :: "real \<Rightarrow> threshold list \<Rightarrow> threshold option" where
  "selectThreshold imageWidth ths =
     (case eachThreshold imageWidth ths (False, None) of
        (hasThresholdMatch, threshold) \<Rightarrow>
          if \<not> hasThresholdMatch
          then (if ths = [] then None else Some (ths ! (length ths - 1)))
          else threshold)"

text \<open>
  \<^verbatim>\<open>_getGridSize\<close>, as a function of what it reads from \<^verbatim>\<open>this\<close>: the element, the
  ratio and the thresholds.  Reading \<^verbatim>\<open>maxBrickSize\<close> of \<^verbatim>\<open>undefined\<close> throws a
  \<^verbatim>\<open>TypeError\<close>.
\<close>

definition getGridSize :: "image_element \<Rightarrow> real \<Rightarrow> threshold list \<Rightarrow> error + jsnum" where
  "getGridSize el r ths =
     (let imageWidth = real (unat (width el));
          gridSize = parseInt (js_mul imageWidth (Num r))
      in case selectThreshold imageWidth ths of
           None \<Rightarrow> Inl TypeError
         | Some threshold \<Rightarrow>
             Inr (if maxBrickSize threshold \<noteq> None \<and> js_gt gridSize (the (maxBrickSize threshold))
                  then Num (the (maxBrickSize threshold))
                  else if minBrickSize threshold \<noteq> None \<and> js_lt gridSize (the (minBrickSize threshold))
                  then Num (the (minBrickSize threshold))
                  else gridSize))"

subsection \<open>Initialisation: the derived values\<close>

text \<open>
  The plugin instance after \<^verbatim>\<open>init\<close> has stored its settings and derived values.  The
  copies \<^verbatim>\<open>self.originalBricksize\<close>, \<^verbatim>\<open>self.ratio\<close> and \<^verbatim>\<open>self.thresholds\<close> are the
  fields inherited from \<open>settings\<close>.
\<close>

record plugin = settings +
  element :: image_element
  gridSize :: jsnum
  brickRatio :: jsnum
  stageWidth :: jsnum
  stageHeight :: jsnum

text \<open>
  The block of \<^verbatim>\<open>Plugin.prototype.init\<close> that stores the settings and computes
  \<^verbatim>\<open>gridSize\<close>, \<^verbatim>\<open>brickRatio\<close>, \<^verbatim>\<open>stageWidth\<close> and \<^verbatim>\<open>stageHeight\<close>.
\<close>

definition storeSettings :: "image_element \<Rightarrow> settings \<Rightarrow> error + plugin" where
  "storeSettings el st =
     (case getGridSize el (ratio st) (thresholds st) of
        Inl e \<Rightarrow> Inl e
      | Inr g \<Rightarrow>
          Inr \<lparr> originalBricksize = originalBricksize st,
                ratio = ratio st,
                thresholds = thresholds st,
                element = el,
                gridSize = g,
                brickRatio = js_div g (originalBricksize st),
                stageWidth = js_sub (real (unat (width el))) (js_rem (Num (real (unat (width el)))) g),
                stageHeight = js_sub (real (unat (height el))) (js_rem (Num (real (unat (height el)))) g) \<rparr>)"

subsection \<open>The shape scaler\<close>

text \<open>
  \<^verbatim>\<open>_getScaledValue\<close>.  \<^verbatim>\<open>self.thresholds[0]\<close> is \<^verbatim>\<open>undefined\<close> for an empty array, and
  reading its \<^verbatim>\<open>maxImageWidth\<close> throws.
\<close>

definition getScaledValue :: "plugin \<Rightarrow> real \<Rightarrow> error + jsnum" where
  "getScaledValue self v =
     (let newVal = js_mul v (brickRatio self)
      in case thresholds self of
           [] \<Rightarrow> Inl TypeError
         | t0 # _ \<Rightarrow>
             Inr (if js_le (stageWidth self) (maxImageWidth t0) then Math_round newVal else newVal))"

subsection \<open>The page, the pipeline and the calls to the outside\<close>

text \<open>
  The process-wide flag is the datum \<^verbatim>\<open>"lego-yourself:processing"\<close> stored on the
  \<^verbatim>\<open>body\<close> element; it is \<^verbatim>\<open>undefined\<close> (\<open>None\<close>) until it is first set.
\<close>

record page =
  processing :: "bool option"

definition isProcessing :: "'a page_scheme \<Rightarrow> bool" where
  "isProcessing pg = (processing pg = Some True)"

definition setProcessing :: "bool \<Rightarrow> 'a page_scheme \<Rightarrow> 'a page_scheme" where
  "setProcessing val pg = pg\<lparr>processing := Some val\<rparr>"

text \<open>
  The image processor, the canvas library, the DOM and the timers are outside the plugin.
  A call that the plugin makes to them is recorded as a \<open>call\<close>; a callback of the plugin
  that they invoke is an \<open>event\<close>.  The two artwork builders \<^verbatim>\<open>_getShadowDataURL\<close> and
  \<^verbatim>\<open>_getHighlightDataURL\<close> each draw a fixed list of gradient fills and curves on a fresh
  shape and serialise it through the scratch canvas; each is recorded as one call
  \<open>BuildArtwork\<close>.
\<close>

datatype effect = removenoise | mosaic

datatype compositeOperation = multiply | lighter

datatype image_source = ShadowDataURL | HighlightDataURL | StageDataURL

datatype call =
    ImageProcessor jsnum jsnum jsnum
      \<comment> \<open>\<^verbatim>\<open>$element.imageProcessor({...})\<close> with the grid size, stage width and stage height\<close>
  | ApplyEffect effect
      \<comment> \<open>\<^verbatim>\<open>imgProc.applyEffect(name, source, callback)\<close>\<close>
  | SetTimeout nat
      \<comment> \<open>\<^verbatim>\<open>setTimeout(callback, ms)\<close>\<close>
  | GetBitmap
      \<comment> \<open>\<^verbatim>\<open>imgProc.getBitmap(resultCanvas)\<close>\<close>
  | StageAddChild
      \<comment> \<open>\<^verbatim>\<open>imgProc.stage.addChild(mosaicBitmap)\<close>\<close>
  | StageUpdate
      \<comment> \<open>\<^verbatim>\<open>imgProc.stage.update()\<close>\<close>
  | OnLoad
      \<comment> \<open>\<^verbatim>\<open>$scratchImageEl.on("load", handler)\<close>\<close>
  | OffLoad
      \<comment> \<open>\<^verbatim>\<open>$scratchImageEl.off("load")\<close>\<close>
  | BuildArtwork image_source
      \<comment> \<open>\<^verbatim>\<open>_getShadowDataURL\<close> or \<^verbatim>\<open>_getHighlightDataURL\<close>\<close>
  | SetSrc image_source
      \<comment> \<open>\<^verbatim>\<open>$scratchImageEl.attr("src", url)\<close>\<close>
  | CreatePattern
      \<comment> \<open>\<^verbatim>\<open>stageContext.createPattern(this, "repeat")\<close>\<close>
  | SetGlobalCompositeOperation compositeOperation
      \<comment> \<open>\<^verbatim>\<open>stageContext.globalCompositeOperation = operation\<close>\<close>
  | SetFillStyle
      \<comment> \<open>\<^verbatim>\<open>stageContext.fillStyle = fillPattern\<close>\<close>
  | FillRect real real jsnum jsnum
      \<comment> \<open>\<^verbatim>\<open>stageContext.fillRect(0, 0, stageWidth, stageHeight)\<close>\<close>
  | SetScratchCompositeOperation compositeOperation
      \<comment> \<open>\<^verbatim>\<open>scratchContext.globalCompositeOperation = 'multiply'\<close>\<close>
  | ScratchAddChild
      \<comment> \<open>\<^verbatim>\<open>scratchCanvas.addChild(new createjs.Bitmap(this))\<close>\<close>
  | BuildGrid jsnum string real
      \<comment> \<open>\<^verbatim>\<open>imgProc.buildGrid(stage.canvas, gridSize, "#c0c0c0", 0.5)\<close>\<close>
  | StageToDataURL
      \<comment> \<open>\<^verbatim>\<open>imgProc.stage.toDataURL()\<close>\<close>
  | MoveOnscreen
      \<comment> \<open>\<^verbatim>\<open>imgProc.moveOnscreen($scratchImageEl)\<close>\<close>
  | Destroy
      \<comment> \<open>\<^verbatim>\<open>imgProc.destroy()\<close>\<close>
  | Trigger string
      \<comment> \<open>\<^verbatim>\<open>$element.trigger(name)\<close>\<close>

text \<open>
  The callbacks: \<open>ImageLoaded\<close> is \<^verbatim>\<open>onLoad\<close> (\<^verbatim>\<open>_process\<close>), \<open>ImageLoadError\<close> is
  \<^verbatim>\<open>onLoadError\<close> (\<^verbatim>\<open>_onImageError\<close>), \<open>EffectError\<close> is \<^verbatim>\<open>onEffectError\<close>
  (\<^verbatim>\<open>_onEffectError\<close>), \<open>EffectDone\<close> is the callback handed to
  \<^verbatim>\<open>applyEffect\<close>, \<open>Timeout\<close> the callback handed to \<^verbatim>\<open>setTimeout\<close>, and
  \<open>ScratchImageLoaded\<close> the \<^verbatim>\<open>load\<close> event of the scratch image.
\<close>

datatype event =
    ImageLoaded
  | ImageLoadError
  | EffectError
  | EffectDone effect
  | Timeout
  | ScratchImageLoaded

datatype entry = Fired event | Call call

text \<open>
  The state of one run of the plugin on one element: the page, the plugin instance, the
  record of what has happened, and the callbacks that the outside holds and has not yet
  invoked.  \<open>loadHandler\<close> is the handler bound to the \<^verbatim>\<open>load\<close> event of the scratch
  image, with the current value of the variable \<^verbatim>\<open>operation\<close> of its closure.
\<close>

record pipeline = page +
  self :: plugin
  journal :: "entry list"
  sourcePending :: bool
  noisePending :: bool
  timerPending :: bool
  mosaicPending :: bool
  scratchPending :: bool
  loadHandler :: "compositeOperation option"

definition call :: "call \<Rightarrow> pipeline \<Rightarrow> pipeline" where
  "call c s = s\<lparr>journal := journal s @ [Call c]\<rparr>"

definition fired :: "event \<Rightarrow> pipeline \<Rightarrow> pipeline" where
  "fired e s = s\<lparr>journal := journal s @ [Fired e]\<rparr>"

subsection \<open>Initialisation\<close>

text \<open>
  \<^verbatim>\<open>Plugin.prototype.init\<close>.  While another run is processing, it only schedules itself
  again after 1000 ms.  Otherwise it sets the flag, stores the settings and the derived
  values and instantiates the image processor, handing it \<^verbatim>\<open>_process\<close>,
  \<^verbatim>\<open>_onImageError\<close> and \<^verbatim>\<open>_onEffectError\<close>.  An exception of \<^verbatim>\<open>_getGridSize\<close>
  leaves \<^verbatim>\<open>init\<close> after the flag has been set.
\<close>

datatype outcome = Retry nat page | Threw error page | Started pipeline

definition init :: "image_element \<Rightarrow> settings \<Rightarrow> page \<Rightarrow> outcome" where
  "init el st pg =
     (if isProcessing pg then Retry 1000 pg
      else
        let pg = setProcessing True pg
        in case storeSettings el st of
             Inl e \<Rightarrow> Threw e pg
           | Inr slf \<Rightarrow>
               Started \<lparr> processing = processing pg,
                         self = slf,
                         journal = [Call (ImageProcessor (gridSize slf) (stageWidth slf) (stageHeight slf))],
                         sourcePending = True,
                         noisePending = False,
                         timerPending = False,
                         mosaicPending = False,
                         scratchPending = False,
                         loadHandler = None \<rparr>)"

subsection \<open>The callbacks\<close>

text \<open>\<^verbatim>\<open>_process\<close>: start the noise removal, handing it the first anonymous callback.\<close>

definition process :: "pipeline \<Rightarrow> pipeline" where
  "process s = (call (ApplyEffect removenoise) s)\<lparr>noisePending := True\<rparr>"

text \<open>The callback of the noise removal: \<^verbatim>\<open>setTimeout(..., 100)\<close>.\<close>

definition removenoiseCallback :: "pipeline \<Rightarrow> pipeline" where
  "removenoiseCallback s = (call (SetTimeout 100) s)\<lparr>timerPending := True\<rparr>"

text \<open>The timer's callback: start the mosaic, handing it \<^verbatim>\<open>_paintBrickPattern\<close>.\<close>

definition timeoutCallback :: "pipeline \<Rightarrow> pipeline" where
  "timeoutCallback s = (call (ApplyEffect mosaic) s)\<lparr>mosaicPending := True\<rparr>"

text \<open>
  \<^verbatim>\<open>_paintBrickPattern\<close>: put the mosaic on the stage, bind the \<^verbatim>\<open>load\<close> handler with
  \<^verbatim>\<open>operation = "multiply"\<close>, and load the shadow artwork into the scratch image.
\<close>

definition paintBrickPattern :: "pipeline \<Rightarrow> pipeline" where
  "paintBrickPattern s =
     (let s = call GetBitmap s;
          s = call StageAddChild s;
          s = call StageUpdate s;
          s = (call OnLoad s)\<lparr>loadHandler := Some multiply\<rparr>;
          s = call (BuildArtwork ShadowDataURL) s
      in (call (SetSrc ShadowDataURL) s)\<lparr>scratchPending := True\<rparr>)"

text \<open>
  The \<^verbatim>\<open>load\<close> handler of the scratch image, run with the current \<^verbatim>\<open>operation\<close>: fill the
  stage with the loaded artwork as a pattern; after the \<^verbatim>\<open>multiply\<close> pass draw the grid
  and load the highlight artwork; after the \<^verbatim>\<open>lighter\<close> pass unbind the handler, show the
  result, clear the flag and trigger \<^verbatim>\<open>image:brickified\<close>.
\<close>

definition scratchImageLoad :: "compositeOperation \<Rightarrow> pipeline \<Rightarrow> pipeline" where
  "scratchImageLoad operation s =
     (let s = call CreatePattern s;
          s = call (SetGlobalCompositeOperation operation) s;
          s = call SetFillStyle s;
          s = call (FillRect 0 0 (stageWidth (self s)) (stageHeight (self s))) s
      in case operation of
           multiply \<Rightarrow>
             (let s = call (SetScratchCompositeOperation multiply) s;
                  s = call ScratchAddChild s;
                  s = call (BuildGrid (gridSize (self s)) ''#c0c0c0'' (1 / 2)) s;
                  s = s\<lparr>loadHandler := Some lighter\<rparr>;
                  s = call (BuildArtwork HighlightDataURL) s
              in (call (SetSrc HighlightDataURL) s)\<lparr>scratchPending := True\<rparr>)
         | lighter \<Rightarrow>
             (let s = (call OffLoad s)\<lparr>loadHandler := None\<rparr>;
                  s = call StageToDataURL s;
                  s = (call (SetSrc StageDataURL) s)\<lparr>scratchPending := True\<rparr>;
                  s = call MoveOnscreen s;
                  s = call Destroy s;
                  s = setProcessing False s
              in call (Trigger ''image:brickified'') s))"

text \<open>\<^verbatim>\<open>_onImageError\<close>: the broken-image icon.\<close>

definition brokenImage :: string where
  "brokenImage = ''data:image/gif;base64,R0lGODlhIQAiAMT/AJkQZ/9rzYplzrqZ/3Zmm9vN/zplZgD9myWaZfT/zPHPmcCcZf///83Nzby8vKysrJqamomJiXh4eFRUVAAAAAAAAAAAAAAAAAAAAAAAAAAAAAAAAAAAAAAAAAAAAAAAACwAAAAAIQAiAAAF/yAjjmRpnqakrmzrrigjxfSoonNNS01e5o6gcEgkznopURGyKg5zSBLwKUEgBhSK0+GLiqbByCxhkBi0Th/DC+YiFoqq4Zwucb9KoTzyOMzRRFmCgngMTwNmc2eARBOOjxSFQxAUBgh/FBMRWxGdnZEyeUJZi1kTEltCIqBtYYKPm6kOq5JFYrCyQQyatUtinS8SWiKOEZKoWxB3BcwCBQKZu50Px4xFEszPzwQjvDZKM9ZPzc8CxMVS4Ktb2M7m59PphjMBDOJczeea1D/qAfXifMDicwIIvQAA7OkqUYxgCVb+EALUB4ufCYjzGEiUuEuTpwcWLx5jAKAkCW80ZjvZO4ZwQkdYOlRidDBI2rSQJxbOdPBImg5DqlaGAqoSXQ0itIZ284jzp1A1xZo6FTook0MaVbNO3ToiBAA7''"

definition onImageError :: "pipeline \<Rightarrow> pipeline" where
  "onImageError s =
     s\<lparr>self := (self s)\<lparr>element := (element (self s))\<lparr>width := 34, height := 34, src := brokenImage\<rparr>\<rparr>\<rparr>"

text \<open>\<^verbatim>\<open>_onEffectError\<close>.\<close>

definition onEffectError :: "pipeline \<Rightarrow> pipeline" where
  "onEffectError s = setProcessing False s"

subsection \<open>Runs\<close>

text \<open>
  One event: the outside invokes a callback that it holds.  The image processor answers a
  request once: the loading of the source image by \<^verbatim>\<open>onLoad\<close> or \<^verbatim>\<open>onLoadError\<close>, an
  effect by its callback or by \<^verbatim>\<open>onEffectError\<close>; a timer fires once; the scratch image
  fires \<^verbatim>\<open>load\<close> once for each source assigned to it.  A callback that the outside does
  not hold cannot be invoked, and the event leaves the state as it is.
\<close>

fun step :: "event \<Rightarrow> pipeline \<Rightarrow> pipeline" where
  "step ImageLoaded s =
     (if sourcePending s then process (fired ImageLoaded (s\<lparr>sourcePending := False\<rparr>)) else s)"
| "step ImageLoadError s =
     (if sourcePending s then onImageError (fired ImageLoadError (s\<lparr>sourcePending := False\<rparr>)) else s)"
| "step EffectError s =
     (if noisePending s \<or> mosaicPending s
      then onEffectError (fired EffectError (s\<lparr>noisePending := False, mosaicPending := False\<rparr>))
      else s)"
| "step (EffectDone removenoise) s =
     (if noisePending s
      then removenoiseCallback (fired (EffectDone removenoise) (s\<lparr>noisePending := False\<rparr>))
      else s)"
| "step (EffectDone mosaic) s =
     (if mosaicPending s
      then paintBrickPattern (fired (EffectDone mosaic) (s\<lparr>mosaicPending := False\<rparr>))
      else s)"
| "step Timeout s =
     (if timerPending s then timeoutCallback (fired Timeout (s\<lparr>timerPending := False\<rparr>)) else s)"
| "step ScratchImageLoaded s =
     (if scratchPending s
      then (case loadHandler s of
              None \<Rightarrow> fired ScratchImageLoaded (s\<lparr>scratchPending := False\<rparr>)
            | Some operation \<Rightarrow>
                scratchImageLoad operation (fired ScratchImageLoaded (s\<lparr>scratchPending := False\<rparr>)))
      else s)"

fun runEvents :: "event list \<Rightarrow> pipeline \<Rightarrow> pipeline" where
  "runEvents [] s = s"
| "runEvents (e # es) s = runEvents es (step e s)"

text \<open>
  \<open>precedes a b xs\<close>: in \<open>xs\<close>, no \<open>b\<close> occurs before the first \<open>a\<close>; that is, every
  occurrence of \<open>b\<close> has an occurrence of \<open>a\<close> before it.
\<close>

fun precedes :: "'a \<Rightarrow> 'a \<Rightarrow> 'a list \<Rightarrow> bool" where
  "precedes a b [] = True"
| "precedes a b (x # xs) = (if x = a then True else if x = b then False else precedes a b xs)"

subsection \<open>The specification's grid sizer and scaler\<close>

text \<open>
  The grid sizer in the words of the specification, as a function of the image width, the
  product \<open>p\<close> of the image width and the ratio, and the thresholds: \<open>raw\<close> is the floor of the
  product; the first threshold whose \<open>maxImageWidth\<close> is at least the image width is selected,
  or the last threshold if there is none; the maximum is tried before the minimum, and at
  most one of them applies.
\<close>

definition spec_select :: "real \<Rightarrow> threshold list \<Rightarrow> threshold" where
  "spec_select w ths =
     (case find (\<lambda>t. maxImageWidth t \<ge> w) ths of Some t \<Rightarrow> t | None \<Rightarrow> last ths)"

definition spec_clamp :: "threshold \<Rightarrow> real \<Rightarrow> real" where
  "spec_clamp t raw =
     (if maxBrickSize t \<noteq> None \<and> raw > the (maxBrickSize t) then the (maxBrickSize t)
      else if minBrickSize t \<noteq> None \<and> raw < the (minBrickSize t) then the (minBrickSize t)
      else raw)"

definition spec_computeGridSize :: "real \<Rightarrow> real \<Rightarrow> threshold list \<Rightarrow> real" where
  "spec_computeGridSize w p ths = spec_clamp (spec_select w ths) (of_int \<lfloor>p\<rfloor>)"

text \<open>
  The scaler in the words of the specification: the product, rounded when the image is
  small, and an image is small when its width is at most the first threshold's
  \<open>maxImageWidth\<close>.
\<close>

definition spec_smallImage :: "image_element \<Rightarrow> threshold list \<Rightarrow> bool" where
  "spec_smallImage el ths = (real (unat (width el)) \<le> maxImageWidth (hd ths))"

definition spec_scale :: "real \<Rightarrow> jsnum \<Rightarrow> bool \<Rightarrow> jsnum" where
  "spec_scale v br smallImage = (if smallImage then Math_round (js_mul v br) else js_mul v br)"

text \<open>The product of a value and a brick ratio is zero or of magnitude at least
  \<open>2\<^sup>-\<^sup>1\<^sup>0\<^sup>2\<^sup>2\<close>, that is, it is not rounded on the subnormal grid.\<close>

fun normalProduct :: "real \<Rightarrow> jsnum \<Rightarrow> bool" where
  "normalProduct v (Num b) = (v * b = 0 \<or> 2 powi (- 1022) \<le> \<bar>v * b\<bar>)"
| "normalProduct v NaN = True"
| "normalProduct v PosInf = True"
| "normalProduct v NegInf = True"

subsection \<open>Example instances\<close>

text \<open>The plugin instances that \<^verbatim>\<open>init\<close> derives, with the default settings, for images
  of 301 by 200, 302 by 200, 280 by 200 and 1000 by 750 pixels.  The brick ratios are the
  doubles of \<open>15/73\<close>, \<open>7/73\<close> and \<open>25/73\<close>.\<close>

definition plugin301 :: plugin where
  "plugin301 =
     \<lparr> originalBricksize = 73, ratio = ratio defaults, thresholds = thresholds defaults,
       element = \<lparr> width = 301, height = 200, src = [] \<rparr>,
       gridSize = Num 15, brickRatio = Num (3701588734825065 / 2 ^ 54),
       stageWidth = Num 300, stageHeight = Num 195 \<rparr>"


definition plugin280 :: plugin where
  "plugin280 =
     \<lparr> originalBricksize = 73, ratio = ratio defaults, thresholds = thresholds defaults,
       element = \<lparr> width = 280, height = 200, src = [] \<rparr>,
       gridSize = Num 7, brickRatio = Num (1727408076251697 / 2 ^ 54),
       stageWidth = Num 280, stageHeight = Num 196 \<rparr>"

definition plugin1000 :: plugin where
  "plugin1000 =
     \<lparr> originalBricksize = 73, ratio = ratio defaults, thresholds = thresholds defaults,
       element = \<lparr> width = 1000, height = 750, src = [] \<rparr>,
       gridSize = Num 25, brickRatio = Num (6169314558041775 / 2 ^ 54),
       stageWidth = Num 1000, stageHeight = Num 750 \<rparr>"

text \<open>The run that \<^verbatim>\<open>init\<close> starts, with the default settings, on an image of 280 by 200
  pixels, and the events of a complete run.\<close>

definition started280 :: pipeline where
  "started280 =
     \<lparr> processing = Some True,
       self = plugin280,
       journal = [Call (ImageProcessor (Num 7) (Num 280) (Num 196))],
       sourcePending = True, noisePending = False, timerPending = False,
       mosaicPending = False, scratchPending = False, loadHandler = None \<rparr>"

definition completeRun :: "event list" where
  "completeRun =
     [ImageLoaded, EffectDone removenoise, Timeout, EffectDone mosaic,
      ScratchImageLoaded, ScratchImageLoaded, ScratchImageLoaded]"

subsection \<open>Invariants of a run\<close>

text \<open>An entry that is an event, or one of the calls made before any painting: the
  instantiation of the image processor, the start of an effect, the timer.\<close>

fun setupOnly :: "entry \<Rightarrow> bool" where
  "setupOnly (Fired e) = True"
| "setupOnly (Call (ImageProcessor g w h)) = True"
| "setupOnly (Call (ApplyEffect e)) = True"
| "setupOnly (Call (SetTimeout n)) = True"
| "setupOnly (Call c) = False"

text \<open>The outside holds no callback of the run.\<close>

definition idle :: "pipeline \<Rightarrow> bool" where
  "idle s =
     (\<not> sourcePending s \<and> \<not> noisePending s \<and> \<not> timerPending s \<and> \<not> mosaicPending s \<and>
      \<not> scratchPending s)"

definition pendingCount :: "pipeline \<Rightarrow> nat" where
  "pendingCount s =
     (if sourcePending s then 1 else 0) + (if noisePending s then 1 else 0) +
     (if timerPending s then 1 else 0) + (if mosaicPending s then 1 else 0) +
     (if scratchPending s then 1 else 0)"

text \<open>
  What holds of every state of a run whose grid size is \<open>g\<close>: the outside holds at most one
  callback, the journal is ordered, nothing has been painted while the source image, an
  effect or the timer is awaited, and the journal holds what the next callback relies on.
\<close>

definition runInvariant :: "jsnum \<Rightarrow> pipeline \<Rightarrow> bool" where
  "runInvariant g s =
     (gridSize (self s) = g
      \<and> pendingCount s \<le> 1
      \<and> precedes (Fired ImageLoaded) (Call (ApplyEffect removenoise)) (journal s)
      \<and> precedes (Fired (EffectDone removenoise)) (Call (SetTimeout 100)) (journal s)
      \<and> precedes (Fired (EffectDone removenoise)) (Call (ApplyEffect mosaic)) (journal s)
      \<and> precedes (Fired Timeout) (Call (ApplyEffect mosaic)) (journal s)
      \<and> precedes (Fired (EffectDone mosaic)) (Call (BuildArtwork ShadowDataURL)) (journal s)
      \<and> precedes (Fired (EffectDone mosaic)) (Call (SetGlobalCompositeOperation multiply)) (journal s)
      \<and> precedes (Call (SetSrc ShadowDataURL)) (Call (SetGlobalCompositeOperation multiply)) (journal s)
      \<and> precedes (Call (BuildGrid g ''#c0c0c0'' (1 / 2))) (Call (BuildArtwork HighlightDataURL))
           (journal s)
      \<and> precedes (Call (BuildGrid g ''#c0c0c0'' (1 / 2))) (Call (SetGlobalCompositeOperation lighter))
           (journal s)
      \<and> precedes (Call (SetSrc HighlightDataURL)) (Call (SetGlobalCompositeOperation lighter))
           (journal s)
      \<and> (sourcePending s \<or> noisePending s \<or> timerPending s \<or> mosaicPending s \<longrightarrow>
            list_all setupOnly (journal s))
      \<and> (timerPending s \<longrightarrow> Fired (EffectDone removenoise) \<in> set (journal s))
      \<and> (loadHandler s = Some multiply \<longrightarrow>
            Fired (EffectDone mosaic) \<in> set (journal s) \<and>
            Call (SetSrc ShadowDataURL) \<in> set (journal s))
      \<and> (loadHandler s = Some lighter \<longrightarrow>
            Call (BuildGrid g ''#c0c0c0'' (1 / 2)) \<in> set (journal s) \<and>
            Call (SetSrc HighlightDataURL) \<in> set (journal s)))"

section \<open>Properties of rounding\<close>

lemmas fl_eval = fl_def ulp_def expo_def rnd_even_def bitLength.simps

lemma bitLength_pos: "1 \<le> n \<Longrightarrow> 0 < bitLength n"
  by (simp add: bitLength.simps [of n])

lemma bitLength_bounds: "1 \<le> n \<Longrightarrow> 2 ^ (bitLength n - 1) \<le> n \<and> n < 2 ^ bitLength n"
proof (induction n rule: bitLength.induct)
  case (1 n)
  show ?case
  proof (cases "n = 1")
    case True
    then show ?thesis by (simp add: bitLength.simps [of 1] bitLength.simps [of 0])
  next
    case False
    with "1.prems" have h: "1 \<le> n div 2" by simp
    with "1.IH" "1.prems" have ih: "2 ^ (bitLength (n div 2) - 1) \<le> n div 2"
      "n div 2 < 2 ^ bitLength (n div 2)" by simp_all
    from h have "0 < bitLength (n div 2)" by (rule bitLength_pos)
    then obtain l where l: "bitLength (n div 2) = Suc l" by (cases "bitLength (n div 2)") auto
    have bl: "bitLength n = Suc (Suc l)"
      using "1.prems" l by (simp add: bitLength.simps [of n])
    from ih l have "(2::int) ^ l \<le> n div 2" "n div 2 < 2 * 2 ^ l" by simp_all
    then have "2 * 2 ^ l \<le> n" "n < 2 * (2 * 2 ^ l)" by linarith+
    then show ?thesis by (simp add: bl)
  qed
qed

lemma powi_neg_nat: "(2::real) powi (- int n) = 1 / 2 ^ n"
  by (simp add: power_int_minus field_simps)

lemma expo_bounds:
  assumes "0 < a"
  shows "2 powi (expo a) \<le> a" and "a < 2 powi (expo a + 1)"
proof -
  have "2 powi (expo a) \<le> a \<and> a < 2 powi (expo a + 1)"
  proof (cases "1 \<le> a")
    case True
    then have f: "1 \<le> \<lfloor>a\<rfloor>" by linarith
    from bitLength_pos [OF f] obtain l where l: "bitLength \<lfloor>a\<rfloor> = Suc l"
      by (cases "bitLength \<lfloor>a\<rfloor>") auto
    from bitLength_bounds [OF f] l have "(2::int) ^ l \<le> \<lfloor>a\<rfloor>" "\<lfloor>a\<rfloor> + 1 \<le> 2 ^ Suc l" by simp_all
    then have "real_of_int (2 ^ l) \<le> of_int \<lfloor>a\<rfloor>" "real_of_int (\<lfloor>a\<rfloor> + 1) \<le> of_int (2 ^ Suc l)"
      by (simp_all only: of_int_le_iff)
    then have A: "(2::real) ^ l \<le> of_int \<lfloor>a\<rfloor>" and B: "of_int \<lfloor>a\<rfloor> + 1 \<le> (2::real) ^ Suc l"
      by simp_all
    have "of_int \<lfloor>a\<rfloor> \<le> a" "a < of_int \<lfloor>a\<rfloor> + 1" by linarith+
    with A B have "2 ^ l \<le> a" "a < 2 ^ Suc l" by linarith+
    moreover have "expo a = int l" using True l by (simp add: expo_def)
    ultimately show ?thesis by (simp add: power_int_add)
  next
    case False
    with assms have inv: "1 < 1 / a" by simp
    then have f: "1 \<le> \<lfloor>1 / a\<rfloor>" by linarith
    from bitLength_pos [OF f] obtain l where l: "bitLength \<lfloor>1 / a\<rfloor> = Suc l"
      by (cases "bitLength \<lfloor>1 / a\<rfloor>") auto
    from bitLength_bounds [OF f] l have "(2::int) ^ l \<le> \<lfloor>1 / a\<rfloor>" "\<lfloor>1 / a\<rfloor> + 1 \<le> 2 ^ Suc l"
      by simp_all
    then have "real_of_int (2 ^ l) \<le> of_int \<lfloor>1 / a\<rfloor>" "real_of_int (\<lfloor>1 / a\<rfloor> + 1) \<le> of_int (2 ^ Suc l)"
      by (simp_all only: of_int_le_iff)
    then have A: "(2::real) ^ l \<le> of_int \<lfloor>1 / a\<rfloor>" and B: "of_int \<lfloor>1 / a\<rfloor> + 1 \<le> (2::real) ^ Suc l"
      by simp_all
    have "of_int \<lfloor>1 / a\<rfloor> \<le> 1 / a" "1 / a < of_int \<lfloor>1 / a\<rfloor> + 1" by linarith+
    with A B have "2 ^ l \<le> 1 / a" "1 / a < 2 ^ Suc l" by linarith+
    then have up: "a * 2 ^ l \<le> 1" and lo: "1 < a * 2 ^ Suc l"
      using assms by (simp_all add: field_simps)
    show ?thesis
    proof (cases "1 \<le> a * 2 ^ l")
      case True
      with up have eq: "a * 2 ^ l = 1" by simp
      have e: "expo a = - int l" using False True l by (simp add: expo_def)
      have a: "a = 1 / 2 ^ l" using eq by (simp add: field_simps)
      have p1: "2 powi (- int l) = 1 / (2::real) ^ l"
        by (simp add: power_int_minus field_simps)
      have p2: "2 powi (- int l + 1) = 2 / (2::real) ^ l"
        using power_int_diff [of "2::real" 1 "int l"] by simp
      from e p1 a have q1: "2 powi (expo a) = a" by simp
      from e p2 a have q2: "2 powi (expo a + 1) = 2 * a" by simp
      from assms show ?thesis unfolding q1 q2 by simp
    next
      case n: False
      have e: "expo a = - int (Suc l)" using False n l by (simp add: expo_def)
      have "2 powi (- int (Suc l)) = 1 / (2::real) ^ Suc l"
        by (rule powi_neg_nat)
      moreover have "- int (Suc l) + 1 = - int l" by simp
      then have "2 powi (- int (Suc l) + 1) = 1 / (2::real) ^ l"
        by (simp only: powi_neg_nat)
      moreover have "1 / 2 ^ Suc l < a" using lo by (simp add: field_simps)
      moreover have "a < 1 / 2 ^ l" using n by (simp add: field_simps)
      ultimately show ?thesis unfolding e by simp
    qed
  qed
  then show "2 powi (expo a) \<le> a" and "a < 2 powi (expo a + 1)" by simp_all
qed

lemma expo_unique:
  assumes "0 < a" and "2 powi k \<le> a" and "a < 2 powi (k + 1)"
  shows "expo a = k"
proof (rule ccontr)
  assume "expo a \<noteq> k"
  then consider "expo a + 1 \<le> k" | "k + 1 \<le> expo a" by linarith
  then show False
  proof cases
    case 1
    then have "(2::real) powi (expo a + 1) \<le> 2 powi k" by (intro power_int_increasing) simp_all
    with expo_bounds(2) [OF assms(1)] assms(2) show False by simp
  next
    case 2
    then have "(2::real) powi (k + 1) \<le> 2 powi expo a" by (intro power_int_increasing) simp_all
    with expo_bounds(1) [OF assms(1)] assms(3) show False by simp
  qed
qed

lemma ulp_pos: "0 < ulp a"
  by (simp add: ulp_def)

lemma rnd_even_range: "\<lfloor>m\<rfloor> \<le> rnd_even m \<and> rnd_even m \<le> \<lfloor>m\<rfloor> + 1"
  by (simp add: rnd_even_def)

lemma rnd_even_of_int: "rnd_even (of_int k) = k"
  by (simp add: rnd_even_def)

lemma rnd_even_ge:
  assumes "of_int k \<le> m"
  shows "k \<le> rnd_even m"
proof -
  from assms have "k \<le> \<lfloor>m\<rfloor>" by (simp add: le_floor_iff)
  with rnd_even_range [of m] show ?thesis by linarith
qed

lemma rnd_even_le:
  assumes "m \<le> of_int k"
  shows "rnd_even m \<le> k"
proof (cases "m = of_int k")
  case True
  then show ?thesis by (simp add: rnd_even_of_int)
next
  case False
  with assms have "m < of_int k" by simp
  then have "\<lfloor>m\<rfloor> < k" by (simp add: floor_less_iff)
  with rnd_even_range [of m] show ?thesis by linarith
qed

lemma fl_pos:
  "0 < x \<Longrightarrow> fl x =
     (if 2 ^ 1024 \<le> of_int (rnd_even (x / ulp x)) * ulp x then PosInf
      else Num (of_int (rnd_even (x / ulp x)) * ulp x))"
  by (simp add: fl_def)

lemma fl_neg:
  "x < 0 \<Longrightarrow> fl x =
     (if 2 ^ 1024 \<le> of_int (rnd_even (- x / ulp (- x))) * ulp (- x) then NegInf
      else Num (- (of_int (rnd_even (- x / ulp (- x))) * ulp (- x))))"
  by (simp add: fl_def)

lemma fl_between:
  assumes "0 < x" and "lo \<le> x" and "x \<le> hi"
    and "lo / ulp x \<in> \<int>" and "hi / ulp x \<in> \<int>" and "hi < 2 ^ 1024"
  shows "\<exists>z. fl x = Num z \<and> lo \<le> z \<and> z \<le> hi"
proof -
  define u where "u = ulp x"
  have u: "0 < u" unfolding u_def by (rule ulp_pos)
  from assms(4,5) obtain i j where i: "lo / u = of_int i" and j: "hi / u = of_int j"
    unfolding u_def by (auto elim!: Ints_cases)
  have "of_int i \<le> x / u" "x / u \<le> of_int j"
    using assms(2,3) u i j by (simp_all flip: i j add: divide_right_mono)
  then have "i \<le> rnd_even (x / u)" "rnd_even (x / u) \<le> j"
    by (simp_all add: rnd_even_ge rnd_even_le)
  then have "of_int i * u \<le> of_int (rnd_even (x / u)) * u" "of_int (rnd_even (x / u)) * u \<le> of_int j * u"
    using u by (simp_all add: mult_right_mono)
  moreover have "of_int i * u = lo" "of_int j * u = hi"
    using i j u by (simp_all flip: i j)
  ultimately have b: "lo \<le> of_int (rnd_even (x / u)) * u" "of_int (rnd_even (x / u)) * u \<le> hi"
    by simp_all
  with assms(6) have "\<not> 2 ^ 1024 \<le> of_int (rnd_even (x / u)) * u" by linarith
  with b show ?thesis using assms(1) unfolding u_def by (simp add: fl_pos)
qed

lemma dyadic_over_ulp:
  assumes "0 < x" and "x < 2 ^ n" and "n + k \<le> 53"
  shows "(of_int i / 2 ^ k) / ulp x \<in> \<int>"
proof -
  have "2 powi (expo x) < (2::real) powi (int n)"
    using expo_bounds(1) [OF assms(1)] assms(2) by simp
  then have "expo x < int n"
    by (metis linorder_not_less one_le_numeral power_int_increasing)
  with assms(3) have "max (expo x) (- 1022) - 52 \<le> - int k" by simp
  then obtain d where d: "max (expo x) (- 1022) - 52 = - int k - int d"
    by (metis add_diff_cancel_left' diff_diff_eq2 nonneg_int_cases diff_ge_0_iff_ge uminus_add_conv_diff minus_diff_eq)
  have "ulp x = 1 / (2 ^ k * 2 ^ d)"
    unfolding ulp_def d by (simp add: power_int_diff power_int_minus field_simps)
  then have "(of_int i / 2 ^ k) / ulp x = of_int (i * 2 ^ d)"
    by simp
  then show ?thesis by (simp only: Ints_of_int)
qed

lemma fl_exact:
  assumes "0 < y" and "y / ulp y \<in> \<int>"
  shows "fl y = (if 2 ^ 1024 \<le> y then PosInf else Num y)"
proof -
  from assms(2) obtain i where i: "y / ulp y = of_int i" by (auto elim!: Ints_cases)
  have "of_int (rnd_even (y / ulp y)) * ulp y = y"
    unfolding i rnd_even_of_int using i ulp_pos [of y] by (simp add: field_simps)
  then show ?thesis using assms(1) by (simp add: fl_pos)
qed

lemma fl_nat:
  assumes "n < 2 ^ 53"
  shows "fl (real n) = Num (real n)"
proof (cases "n = 0")
  case True
  then show ?thesis by (simp add: fl_def)
next
  case False
  then have pos: "0 < real n" by simp
  have lt: "real n < 2 ^ 53"
    using assms by (metis of_nat_less_iff of_nat_numeral of_nat_power)
  have "(of_int (int n) / 2 ^ 0) / ulp (real n) \<in> \<int>"
    using pos lt by (rule dyadic_over_ulp) simp
  then have "real n / ulp (real n) \<in> \<int>" by simp
  from fl_exact [OF pos this] lt show ?thesis by simp
qed

lemma js_le_fl:
  assumes "y \<le> real n" and "n < 2 ^ 53"
  shows "js_le (fl y) (real n)"
proof -
  have lt: "real n < 2 ^ 53"
    using assms(2) by (metis of_nat_less_iff of_nat_numeral of_nat_power)
  consider "y = 0" | "y < 0" | "0 < y" by linarith
  then show ?thesis
  proof cases
    case 1
    then show ?thesis by (simp add: fl_def)
  next
    case 2
    have "0 \<le> of_int (rnd_even (- y / ulp (- y))) * ulp (- y)"
    proof -
      have "0 \<le> - y / ulp (- y)"
        by (intro divide_nonneg_pos ulp_pos) (use 2 in simp)
      then have "of_int 0 \<le> - y / ulp (- y)" by simp
      then have "0 \<le> rnd_even (- y / ulp (- y))" by (rule rnd_even_ge)
      then show ?thesis using ulp_pos [of "- y"] by simp
    qed
    then show ?thesis using 2 by (simp add: fl_neg)
  next
    case 3
    have a: "(of_int 0 / 2 ^ 0) / ulp y \<in> \<int>" by simp
    have "y < 2 ^ 53" using assms(1) lt by simp
    with 3 have "(of_int (int n) / 2 ^ 0) / ulp y \<in> \<int>" by (rule dyadic_over_ulp) simp
    then have b: "real n / ulp y \<in> \<int>" by simp
    have c: "real n < 2 ^ 1024"
    proof -
      have "(2::real) ^ 53 \<le> 2 ^ 1024" by (rule power_increasing) simp_all
      with lt show ?thesis by linarith
    qed
    have "\<exists>z. fl y = Num z \<and> 0 \<le> z \<and> z \<le> real n"
      using fl_between [OF 3 _ assms(1) _ b c, of 0] 3 by simp
    then show ?thesis by auto
  qed
qed









text \<open>In the subnormal range doubling is rounded: the product of \<open>2\<^sup>-\<^sup>1\<^sup>0\<^sup>7\<^sup>4\<close>, the least
  positive double, and the double of \<open>25/73\<close> rounds to zero, and the product of twice as much
  rounds to \<open>2\<^sup>-\<^sup>1\<^sup>0\<^sup>7\<^sup>4\<close>.\<close>

lemma subnormal_products:
  "fl (1 / 2 ^ 1074 * (6169314558041775 / 2 ^ 54)) = Num 0"
  "fl (2 * (1 / 2 ^ 1074) * (6169314558041775 / 2 ^ 54)) = Num (1 / 2 ^ 1074)"
proof -
  define u :: real where "u = 1 / 2 ^ 1074"
  define x :: real where "x = u * (6169314558041775 / 2 ^ 54)"
  have upos: "0 < u" unfolding u_def by simp
  have p: "(2::real) powi (- 1074) = u" "(2::real) powi (- 1075) = u / 2"
    "(2::real) powi (- 1076) = u / 4" "(2::real) powi (- 1076 + 1) = u / 2"
    "(2::real) powi (- 1075 + 1) = u"
    unfolding u_def by (simp_all add: power_int_minus field_simps)
  have xpos: "0 < x" unfolding x_def using upos by simp
  have "expo x = - 1076"
    using xpos
  proof (rule expo_unique)
    show "2 powi (- 1076) \<le> x" unfolding p x_def using upos by simp
    show "x < 2 powi (- 1076 + 1)" unfolding p x_def using upos by simp
  qed
  then have ux: "ulp x = u" unfolding ulp_def using p(1) by simp
  have "x / ulp x = x / u" by (simp only: ux)
  also have "\<dots> = 6169314558041775 / 2 ^ 54" unfolding x_def using upos by simp
  finally have q: "x / ulp x = 6169314558041775 / 2 ^ 54" .
  have "rnd_even (x / ulp x) = 0" unfolding q by (simp add: rnd_even_def)
  then have "fl x = Num 0" using xpos fl_pos [of x] by simp
  then show "fl (1 / 2 ^ 1074 * (6169314558041775 / 2 ^ 54)) = Num 0"
    unfolding x_def u_def .
  have x2pos: "0 < 2 * x" using xpos by simp
  have "expo (2 * x) = - 1075"
    using x2pos
  proof (rule expo_unique)
    show "2 powi (- 1075) \<le> 2 * x" unfolding p x_def using upos by simp
    show "2 * x < 2 powi (- 1075 + 1)" unfolding p x_def using upos by simp
  qed
  then have ux2: "ulp (2 * x) = u" unfolding ulp_def using p(1) by simp
  have "2 * x / ulp (2 * x) = 2 * x / u" by (simp only: ux2)
  also have "\<dots> = 6169314558041775 / 2 ^ 53" unfolding x_def using upos by simp
  finally have q2: "2 * x / ulp (2 * x) = 6169314558041775 / 2 ^ 53" .
  have "rnd_even (2 * x / ulp (2 * x)) = 1" unfolding q2 by (simp add: rnd_even_def)
  moreover have "u < 2 ^ 1024"
  proof -
    have "u < 1" unfolding u_def by simp
    moreover have "(1::real) \<le> 2 ^ 1024" by (rule one_le_power) simp
    ultimately show ?thesis by linarith
  qed
  ultimately have "fl (2 * x) = Num u" using x2pos fl_pos [of "2 * x"] ux2 by simp
  then show "fl (2 * (1 / 2 ^ 1074) * (6169314558041775 / 2 ^ 54)) = Num (1 / 2 ^ 1074)"
    unfolding x_def u_def by (simp only: mult.assoc)
qed

text \<open>The default ratio is the double of \<open>1/40\<close>, and the brick ratios of the example instances
  are the doubles of \<open>15/73\<close>, \<open>7/73\<close> and \<open>25/73\<close>.\<close>

lemma default_ratio: "fl (1 / 40) = Num (ratio defaults)"
  by (simp add: fl_eval defaults_def)

lemma example_brickRatios:
  "js_div (Num 15) 73 = Num (3701588734825065 / 2 ^ 54)"
  "js_div (Num 7) 73 = Num (1727408076251697 / 2 ^ 54)"
  "js_div (Num 25) 73 = Num (6169314558041775 / 2 ^ 54)"
  by (simp_all add: fl_eval)

section \<open>Properties of \<^verbatim>\<open>parseInt\<close>\<close>

lemma positional_range: "1 / 10 ^ 6 \<le> a \<Longrightarrow> a < 10 ^ 21 \<Longrightarrow> positional a"
  unfolding positional_def by simp

lemma parseIntNum_positional: "x = 0 \<or> positional \<bar>x\<bar> \<Longrightarrow> parseIntNum x = js_trunc x"
  by (auto simp: parseIntNum_def js_trunc_def)

lemma default_product:
  assumes "n < 2 ^ 32"
  shows "parseInt (js_mul (real n) (Num (3602879701896397 / 2 ^ 57))) = Num (real (n div 40))"
proof (cases "n = 0")
  case True
  then show ?thesis by (simp add: fl_def parseIntNum_def)
next
  case False
  define k where "k = n div 40"
  define y where "y = real n * (3602879701896397 / 2 ^ 57)"
  define lo where "lo = real_of_int (max (64 * int k) 1) / 2 ^ 6"
  define hi where "hi = real_of_int (64 * int k + 63) / 2 ^ 6"
  have n1: "1 \<le> real n" using False by simp
  have nlt: "real n < 2 ^ 32"
    using assms by (metis of_nat_less_iff of_nat_numeral of_nat_power)
  have "40 * k \<le> n" "n \<le> 40 * k + 39" unfolding k_def by arith+
  then have kn: "40 * real k \<le> real n" "real n \<le> 40 * real k + 39"
    by (metis of_nat_le_iff of_nat_mult of_nat_numeral, metis of_nat_le_iff of_nat_mult of_nat_numeral of_nat_add)
  have ypos: "0 < y" unfolding y_def using n1 by simp
  have ylt: "y < 2 ^ 32" unfolding y_def using nlt n1 by simp
  have lo_le: "lo \<le> y" unfolding lo_def y_def using kn n1 by (simp add: max_def)
  have le_hi: "y \<le> hi" unfolding hi_def y_def using kn nlt by simp
  have ilo: "lo / ulp y \<in> \<int>" unfolding lo_def using ypos ylt by (rule dyadic_over_ulp) simp
  have ihi: "hi / ulp y \<in> \<int>" unfolding hi_def using ypos ylt by (rule dyadic_over_ulp) simp
  have hilt: "hi < 2 ^ 1024"
  proof -
    have "hi < 2 ^ 32" unfolding hi_def using kn nlt by simp
    also have "(2::real) ^ 32 \<le> 2 ^ 1024" by (rule power_increasing) simp_all
    finally show ?thesis .
  qed
  from fl_between [OF ypos lo_le le_hi ilo ihi hilt]
  obtain z where z: "fl y = Num z" "lo \<le> z" "z \<le> hi" by blast
  have zk: "real k \<le> z" "z < real k + 1" "1 / 2 ^ 6 \<le> z"
    using z(2,3) unfolding lo_def hi_def by (simp_all add: max_def field_simps split: if_splits)
  then have fz: "\<lfloor>z\<rfloor> = int k" by linarith
  have "z < 10 ^ 21" using zk(2) kn nlt by simp
  with zk(3) have "positional \<bar>z\<bar>" by (intro positional_range) simp_all
  then have "parseIntNum z = js_trunc z" by (simp add: parseIntNum_positional)
  also have "\<dots> = int k" using zk fz by (simp add: js_trunc_def)
  finally show ?thesis using z(1) unfolding y_def k_def by simp
qed

lemma js_trunc_of_int: "js_trunc (of_int k) = k"
  by (simp add: js_trunc_def)

lemma js_trunc_floor: "0 \<le> x \<Longrightarrow> js_trunc x = \<lfloor>x\<rfloor>"
  by (simp add: js_trunc_def)

text \<open>The double nearest to \<open>10\<^sup>-\<^sup>6\<close> is below \<open>10\<^sup>-\<^sup>6\<close> and is printed as \<^verbatim>\<open>"0.000001"\<close>; the
  double nearest to \<open>5 * 10\<^sup>-\<^sup>7\<close> is printed as \<^verbatim>\<open>"5e-7"\<close>.\<close>

lemma parseInt_examples:
  "fl (1 / 10 ^ 6) = Num (4722366482869645 / 2 ^ 72)"
  "parseInt (Num (4722366482869645 / 2 ^ 72)) = Num 0"
  "fl (5 / 10 ^ 7) = Num (4722366482869645 / 2 ^ 73)"
  "parseInt (Num (4722366482869645 / 2 ^ 73)) = Num 5"
  by (simp_all add: fl_eval parseIntNum_def positional_def js_trunc_def exponentDigit_def
      bumped_def leadDigit.simps numDigits.simps)

section \<open>Properties of the grid sizer\<close>

lemma eachThreshold_matched: "eachThreshold w ths (True, th) = (True, th)"
  by (induction ths) simp_all

lemma eachThreshold_find:
  "eachThreshold w ths (False, None) =
     (case find (\<lambda>t. w \<le> maxImageWidth t) ths of
        None \<Rightarrow> (False, None)
      | Some t \<Rightarrow> (True, Some t))"
  by (induction ths) (simp_all add: eachThreshold_matched)

lemma selectThreshold_spec: "ths \<noteq> [] \<Longrightarrow> selectThreshold w ths = Some (spec_select w ths)"
  by (simp add: selectThreshold_def spec_select_def eachThreshold_find last_conv_nth
      split: option.split)

lemma selectThreshold_empty: "selectThreshold w [] = None"
  by (simp add: selectThreshold_def)

lemma getGridSize_clamp:
  assumes "ths \<noteq> []" and "parseInt (js_mul (real (unat (width el))) (Num r)) = Num x"
  shows "getGridSize el r ths =
           Inr (Num (spec_clamp (spec_select (real (unat (width el))) ths) x))"
  using assms by (simp add: getGridSize_def selectThreshold_spec spec_clamp_def Let_def)

lemma getGridSize_empty: "getGridSize el r [] = Inl TypeError"
  by (simp add: getGridSize_def selectThreshold_empty)

text \<open>The grid size is a finite number or \<^verbatim>\<open>NaN\<close>, never an infinity.\<close>

lemma parseInt_finite: "parseInt x \<noteq> PosInf \<and> parseInt x \<noteq> NegInf"
  by (cases x) simp_all

lemma getGridSize_finite:
  "getGridSize el r ths = Inr g \<Longrightarrow> g \<noteq> PosInf \<and> g \<noteq> NegInf"
  using parseInt_finite [of "js_mul (real (unat (width el))) (Num r)"]
  by (auto simp: getGridSize_def Let_def split: option.splits if_splits)

lemmas evaluate =
  getGridSize_def defaults_def selectThreshold_def parseIntNum_def positional_def js_trunc_def
  Let_def storeSettings_def getScaledValue_def fl_eval

text \<open>
  C1 (as amended).  For every image width, every ratio and every non-empty sequence of
  thresholds for which the product of the width and the ratio, as the code computes it, is a
  finite number \<open>p\<close> that is zero or of magnitude at least \<open>10\<^sup>-\<^sup>6\<close> and less than \<open>10\<^sup>2\<^sup>1\<close>:
  \<^verbatim>\<open>_getGridSize\<close> returns the result of the specification's selection and clamp applied to
  \<open>p\<close> truncated toward zero; and when \<open>p\<close> is not negative it returns the specification's
  grid size, with \<open>raw = floor(p)\<close>.
\<close>

theorem getGridSize_spec_positional:
  assumes "ths \<noteq> []"
    and "js_mul (real (unat (width el))) (Num r) = Num p"
    and "p = 0 \<or> (1 / 10 ^ 6 \<le> \<bar>p\<bar> \<and> \<bar>p\<bar> < 10 ^ 21)"
  shows "getGridSize el r ths =
           Inr (Num (spec_clamp (spec_select (real (unat (width el))) ths)
                  (of_int (js_trunc p))))
       \<and> (0 \<le> p \<longrightarrow>
            getGridSize el r ths = Inr (Num (spec_computeGridSize (real (unat (width el))) p ths)))"
proof -
  from assms(3) have "p = 0 \<or> positional \<bar>p\<bar>" by (auto intro: positional_range)
  then have "parseIntNum p = js_trunc p" by (rule parseIntNum_positional)
  with assms(2) have "parseInt (js_mul (real (unat (width el))) (Num r)) = Num (of_int (js_trunc p))"
    by simp
  with assms(1) have "getGridSize el r ths =
      Inr (Num (spec_clamp (spec_select (real (unat (width el))) ths) (of_int (js_trunc p))))"
    by (rule getGridSize_clamp)
  then show ?thesis by (simp add: spec_computeGridSize_def js_trunc_floor)
qed

theorem getGridSize_spec_positional_witness:
  "thresholds defaults \<noteq> []
   \<and> js_mul (real (unat (1000 :: 32 word))) (Num (ratio defaults)) = Num 25
   \<and> 1 / 10 ^ 6 \<le> \<bar>25 :: real\<bar> \<and> \<bar>25 :: real\<bar> < 10 ^ 21 \<and> (0 :: real) \<le> 25
   \<and> getGridSize \<lparr>width = 1000, height = 750, src = []\<rparr> (ratio defaults) (thresholds defaults) =
       Inr (Num 25)
   \<and> spec_computeGridSize 1000 25 (thresholds defaults) = 25"
proof -
  have a: "thresholds defaults \<noteq> []" by (simp add: defaults_def)
  have b: "js_mul (real (unat (width \<lparr>width = 1000 :: 32 word, height = 750 :: 32 word, src = []\<rparr>)))
             (Num (ratio defaults)) = Num 25"
    by (simp add: defaults_def fl_eval)
  have c: "(25 :: real) = 0 \<or> (1 / 10 ^ 6 \<le> \<bar>25 :: real\<bar> \<and> \<bar>25 :: real\<bar> < 10 ^ 21)" by simp
  from getGridSize_spec_positional [OF a b c] a b show ?thesis
    by (simp add: defaults_def spec_computeGridSize_def spec_select_def spec_clamp_def
        js_trunc_def)
qed

text \<open>
  C1 as stated fails where \<^verbatim>\<open>parseInt\<close> is not the floor.  With a negative ratio the
  product \<open>10 * (-1/4) = -2.5\<close>, which is computed without rounding, is read as \<open>-2\<close>, and its
  floor is \<open>-3\<close>; the threshold, which has only a \<open>maxBrickSize\<close>, clamps neither.
\<close>

theorem getGridSize_not_floor:
  "getGridSize \<lparr>width = 10, height = 10, src = []\<rparr> (- 1 / 4)
      [\<lparr>maxImageWidth = 1600, minBrickSize = None, maxBrickSize = Some 36\<rparr>] = Inr (Num (- 2))
   \<and> js_mul (real (unat (10 :: 32 word))) (Num (- 1 / 4)) = Num (- 5 / 2)
   \<and> real (unat (10 :: 32 word)) * (- 1 / 4) = - 5 / 2
   \<and> spec_computeGridSize 10 (- 5 / 2)
      [\<lparr>maxImageWidth = 1600, minBrickSize = None, maxBrickSize = Some 36\<rparr>] = - 3
   \<and> getGridSize \<lparr>width = 10, height = 10, src = []\<rparr> (- 1 / 4)
      [\<lparr>maxImageWidth = 1600, minBrickSize = None, maxBrickSize = Some 36\<rparr>] \<noteq>
     Inr (Num (spec_computeGridSize (real (unat (10 :: 32 word))) (- 5 / 2)
      [\<lparr>maxImageWidth = 1600, minBrickSize = None, maxBrickSize = Some 36\<rparr>]))"
  by (simp add: evaluate spec_computeGridSize_def spec_select_def spec_clamp_def)

text \<open>The product is the rounded one: for a width of 3 and the ratio
  \<open>0.3333333333333333\<close>, whose exact product is below 1, the computed product is 1 and so is
  the grid size.\<close>

lemma getGridSize_rounded_product:
  "real (unat (3 :: 32 word)) * (6004799503160661 / 2 ^ 54) < 1
   \<and> js_mul (real (unat (3 :: 32 word))) (Num (6004799503160661 / 2 ^ 54)) = Num 1
   \<and> getGridSize \<lparr>width = 3, height = 3, src = []\<rparr> (6004799503160661 / 2 ^ 54)
      [\<lparr>maxImageWidth = 1600, minBrickSize = None, maxBrickSize = Some 36\<rparr>] = Inr (Num 1)"
  by (simp add: evaluate)

text \<open>
  C6.  With the default settings a width of 280 gives the grid size 7: \<open>raw\<close> is 7, the first
  threshold is selected, its \<open>minBrickSize\<close> is 7 and nothing is clamped.  A width of 300
  selects the first threshold and a width of 301 the second, where \<open>raw = 7\<close> is raised to
  the \<open>minBrickSize\<close> 15.
\<close>

theorem defaults_width_280_300_301:
  "getGridSize \<lparr>width = 280, height = h, src = s\<rparr> (ratio defaults) (thresholds defaults) =
     Inr (Num 7)
   \<and> js_mul 280 (Num (ratio defaults)) = Num 7
   \<and> parseInt (js_mul 280 (Num (ratio defaults))) = Num 7 \<and> \<lfloor>280 / 40 :: real\<rfloor> = 7
   \<and> selectThreshold 280 (thresholds defaults) = Some (thresholds defaults ! 0)
   \<and> minBrickSize (thresholds defaults ! 0) = Some 7
   \<and> selectThreshold 300 (thresholds defaults) = Some (thresholds defaults ! 0)
   \<and> selectThreshold 301 (thresholds defaults) = Some (thresholds defaults ! 1)
   \<and> js_mul 301 (Num (ratio defaults)) = Num (4236198399495373 / 2 ^ 49)
   \<and> parseInt (js_mul 301 (Num (ratio defaults))) = Num 7
   \<and> \<lfloor>4236198399495373 / 2 ^ 49 :: real\<rfloor> = 7
   \<and> minBrickSize (thresholds defaults ! 1) = Some 15
   \<and> getGridSize \<lparr>width = 301, height = h, src = s\<rparr> (ratio defaults) (thresholds defaults) =
       Inr (Num 15)"
  by (simp add: evaluate)

text \<open>
  C7.  With the default settings a width of 2000 matches no threshold, so the last one is
  used; its \<open>maxBrickSize\<close> is 36, \<open>raw\<close> is 50, and the grid size is 36.
\<close>

theorem defaults_width_2000:
  "eachThreshold 2000 (thresholds defaults) (False, None) = (False, None)
   \<and> selectThreshold 2000 (thresholds defaults) = Some (last (thresholds defaults))
   \<and> maxBrickSize (last (thresholds defaults)) = Some 36
   \<and> js_mul 2000 (Num (ratio defaults)) = Num 50
   \<and> parseInt (js_mul 2000 (Num (ratio defaults))) = Num 50 \<and> \<lfloor>2000 / 40 :: real\<rfloor> = 50
   \<and> getGridSize \<lparr>width = 2000, height = h, src = s\<rparr> (ratio defaults) (thresholds defaults) =
       Inr (Num 36)"
  by (simp add: evaluate)

subsection \<open>The default settings\<close>

lemma getGridSize_defaults:
  assumes "n = unat (width el)"
  shows "getGridSize el (ratio defaults) (thresholds defaults) =
     Inr (Num (if n \<le> 300 then 7
          else if n \<le> 1200
          then (if 26 < n div 40 then 26 else if n div 40 < 15 then 15 else real (n div 40))
          else (if 36 < n div 40 then 36 else real (n div 40))))"
proof -
  have "n < 2 ^ 32"
    using assms unsigned_less [of "width el", where ?'a = nat] by simp
  then have p: "parseInt (js_mul (real n) (Num (3602879701896397 / 2 ^ 57))) = Num (real (n div 40))"
    by (rule default_product)
  show ?thesis
    unfolding getGridSize_def Let_def assms [symmetric] defaults_def
    apply (simp only: settings.simps p)
    apply (simp add: selectThreshold_def)
    apply arith
    done
qed

text \<open>
  C10.  With the default settings, for every positive image width the grid size is an
  integer between 7 and 36, so neither remainder of \<^verbatim>\<open>init\<close> is a remainder by zero.
\<close>

theorem defaults_gridSize_bounds:
  assumes "0 < width el"
  shows "\<exists>slf g. storeSettings el defaults = Inr slf
     \<and> gridSize slf = Num g \<and> 7 \<le> g \<and> g \<le> 36 \<and> g \<in> \<int>
     \<and> js_rem (Num (real (unat (width el)))) (gridSize slf) \<noteq> NaN
     \<and> js_rem (Num (real (unat (height el)))) (gridSize slf) \<noteq> NaN"
proof -
  define n where "n = unat (width el)"
  define g where "g =
     (if n \<le> 300 then 7
      else if n \<le> 1200
      then (if 26 < n div 40 then 26 else if n div 40 < 15 then 15 else real (n div 40))
      else (if 36 < n div 40 then 36 else real (n div 40)))"
  have gs: "getGridSize el (ratio defaults) (thresholds defaults) = Inr (Num g)"
    unfolding g_def using n_def by (rule getGridSize_defaults)
  have lo: "7 \<le> g" unfolding g_def by simp arith
  have hi: "g \<le> 36" unfolding g_def by auto
  have int: "g \<in> \<int>" unfolding g_def by simp
  from lo have nz: "g \<noteq> 0" by simp
  show ?thesis using gs lo hi int nz by (simp add: storeSettings_def)
qed

theorem defaults_gridSize_bounds_witness:
  "(0 :: 32 word) < 1000
   \<and> (\<exists>slf g. storeSettings \<lparr>width = 1000, height = 750, src = []\<rparr> defaults = Inr slf
     \<and> gridSize slf = Num g \<and> 7 \<le> g \<and> g \<le> 36 \<and> g \<in> \<int>
     \<and> js_rem (Num (real (unat (1000 :: 32 word)))) (gridSize slf) \<noteq> NaN
     \<and> js_rem (Num (real (unat (750 :: 32 word)))) (gridSize slf) \<noteq> NaN)"
  using defaults_gridSize_bounds [of "\<lparr>width = 1000, height = 750, src = []\<rparr>"] by simp

section \<open>Properties of the derived values\<close>

lemma storeSettings_Inr:
  "storeSettings el st = Inr slf \<Longrightarrow>
     getGridSize el (ratio st) (thresholds st) = Inr (gridSize slf) \<and>
     thresholds slf = thresholds st \<and> ratio slf = ratio st \<and>
     originalBricksize slf = originalBricksize st \<and> element slf = el \<and>
     brickRatio slf = js_div (gridSize slf) (originalBricksize st) \<and>
     stageWidth slf =
       js_sub (real (unat (width el))) (js_rem (Num (real (unat (width el)))) (gridSize slf)) \<and>
     stageHeight slf =
       js_sub (real (unat (height el))) (js_rem (Num (real (unat (height el)))) (gridSize slf))"
  by (auto simp: storeSettings_def split: sum.splits)

text \<open>For an integer grid size the subtraction \<^verbatim>\<open>w - (w % g)\<close> is not rounded: its
  result is a natural number not above the width.\<close>

lemma stage_exact:
  assumes "g \<in> \<int>" and "0 < g" and "n < 2 ^ 32"
  shows "js_sub (real n) (js_rem (Num (real n)) (Num g)) =
           Num (g * of_int (js_trunc (real n / g)))"
proof -
  from assms(1) obtain gi :: int where g: "g = of_int gi" by (auto elim: Ints_cases)
  with assms(2) have gi: "0 < gi" by simp
  have "0 \<le> real n / g" using assms(2) by simp
  then have "js_trunc (real n / g) = \<lfloor>real n / g\<rfloor>" by (rule js_trunc_floor)
  also have "\<dots> = \<lfloor>real_of_int (int n) / real_of_int gi\<rfloor>" unfolding g by simp
  also have "\<dots> = int n div gi" by (rule floor_divide_of_int_eq)
  finally have t: "js_trunc (real n / g) = int n div gi" .
  define m where "m = nat (gi * (int n div gi))"
  have nonneg: "0 \<le> gi * (int n div gi)"
    using gi by (simp add: pos_imp_zdiv_nonneg_iff)
  have le: "gi * (int n div gi) \<le> int n"
    using pos_mod_sign [of gi "int n"] mult_div_mod_eq [of gi "int n"] gi by linarith
  from nonneg have im: "int m = gi * (int n div gi)" unfolding m_def by simp
  from le im have "m \<le> n" by linarith
  with assms(3) have "m < 2 ^ 53"
  proof -
    have "(2::nat) ^ 32 \<le> 2 ^ 53" by (rule power_increasing) simp_all
    with \<open>m \<le> n\<close> assms(3) show ?thesis by linarith
  qed
  then have f: "fl (real m) = Num (real m)" by (rule fl_nat)
  have "real m = real_of_int (int m)" by simp
  also have "\<dots> = g * of_int (js_trunc (real n / g))" unfolding im t by (simp add: g)
  finally have rm: "real m = g * of_int (js_trunc (real n / g))" .
  have "js_sub (real n) (js_rem (Num (real n)) (Num g)) =
      fl (real n - (real n - g * of_int (js_trunc (real n / g))))"
    using assms(2) by simp
  also have "real n - (real n - g * of_int (js_trunc (real n / g))) = real m"
    using rm by simp
  finally show ?thesis using f rm by simp
qed

lemma js_rem_multiple: "g \<noteq> 0 \<Longrightarrow> js_rem (Num (g * of_int k)) (Num g) = Num 0"
  by (simp add: js_trunc_of_int)

text \<open>
  C5.  When the grid size that \<^verbatim>\<open>init\<close> computes is a positive integer, the stage width
  and the stage height that it derives from the element's width and height leave the
  remainder 0 when divided by the grid size.
\<close>

theorem stage_multiple_of_gridSize:
  assumes "storeSettings el st = Inr slf" and "gridSize slf = Num g" and "g \<in> \<int>" and "0 < g"
  shows "js_rem (stageWidth slf) (gridSize slf) = Num 0
       \<and> js_rem (stageHeight slf) (gridSize slf) = Num 0"
proof -
  from assms(4) have nz: "g \<noteq> 0" by simp
  have w: "unat (width el) < 2 ^ 32" using unsigned_less [of "width el", where ?'a = nat] by simp
  have h: "unat (height el) < 2 ^ 32" using unsigned_less [of "height el", where ?'a = nat] by simp
  note s = storeSettings_Inr [OF assms(1)]
  from s have "stageWidth slf = Num (g * of_int (js_trunc (real (unat (width el)) / g)))"
    unfolding assms(2) using stage_exact [OF assms(3,4) w] by simp
  moreover from s have "stageHeight slf = Num (g * of_int (js_trunc (real (unat (height el)) / g)))"
    unfolding assms(2) using stage_exact [OF assms(3,4) h] by simp
  ultimately show ?thesis unfolding assms(2) using nz by (simp only: js_rem_multiple simp_thms)
qed

theorem stage_multiple_of_gridSize_witness:
  "storeSettings \<lparr>width = 301, height = 200, src = []\<rparr> defaults = Inr plugin301
   \<and> gridSize plugin301 = Num 15 \<and> (15 :: real) \<in> \<int> \<and> (0 :: real) < 15
   \<and> stageWidth plugin301 = Num 300 \<and> stageHeight plugin301 = Num 195
   \<and> js_rem (stageWidth plugin301) (gridSize plugin301) = Num 0
   \<and> js_rem (stageHeight plugin301) (gridSize plugin301) = Num 0"
proof -
  have a: "storeSettings \<lparr>width = 301, height = 200, src = []\<rparr> defaults = Inr plugin301"
    by (simp add: evaluate plugin301_def)
  have b: "gridSize plugin301 = Num 15" by (simp add: plugin301_def)
  have c: "(15 :: real) \<in> \<int>" by simp
  have d: "(0 :: real) < 15" by simp
  from stage_multiple_of_gridSize [OF a b c d] a b c d show ?thesis
    by (simp add: plugin301_def)
qed

section \<open>Properties of the shape scaler\<close>

lemma js_rem_le:
  assumes "0 \<le> w" and "g \<noteq> 0"
  shows "g * of_int (js_trunc (w / g)) \<le> w"
proof (cases "0 < g")
  case True
  then have "0 \<le> w / g" using assms by simp
  then have "js_trunc (w / g) = \<lfloor>w / g\<rfloor>" by (simp add: js_trunc_def)
  moreover have "of_int \<lfloor>w / g\<rfloor> \<le> w / g" by simp
  then have "g * of_int \<lfloor>w / g\<rfloor> \<le> g * (w / g)"
    using True by (simp only: mult_le_cancel_left_pos)
  ultimately show ?thesis using True by simp
next
  case False
  with assms have neg: "g < 0" by simp
  show ?thesis
  proof (cases "w = 0")
    case True
    then show ?thesis by (simp add: js_trunc_def)
  next
    case False
    with assms neg have "w / g < 0"
      by (simp add: divide_neg_neg divide_pos_neg field_simps)
    then have t: "js_trunc (w / g) = - \<lfloor>- (w / g)\<rfloor>" by (simp add: js_trunc_def)
    have "w / g \<le> - of_int \<lfloor>- (w / g)\<rfloor>" by linarith
    then have "g * (- of_int \<lfloor>- (w / g)\<rfloor>) \<le> g * (w / g)"
      using neg by (simp only: mult_le_cancel_left_neg)
    then show ?thesis using neg t by simp
  qed
qed

text \<open>\<^verbatim>\<open>Math.round\<close> returns an integer at distance at most 1/2.\<close>

lemma Math_round_nearest:
  "\<exists>k :: int. Math_round (Num x) = Num (of_int k) \<and> \<bar>x - of_int k\<bar> \<le> 1 / 2"
proof -
  have "\<bar>x - of_int \<lfloor>x + 1 / 2\<rfloor>\<bar> \<le> 1 / 2" by linarith
  then show ?thesis by auto
qed

lemma js_le_trans: "js_le x a \<Longrightarrow> a \<le> b \<Longrightarrow> js_le x b"
  by (cases x) simp_all

text \<open>With a finite non-zero grid size the stage is not wider than the image, so the stage
  of a small image passes the scaler's test.\<close>

lemma stage_small:
  assumes "storeSettings el st = Inr slf" and g: "gridSize slf = Num g" and nz: "g \<noteq> 0"
    and small: "spec_smallImage el (thresholds st)"
  shows "js_le (stageWidth slf) (maxImageWidth (hd (thresholds st)))"
proof -
  define n where "n = unat (width el)"
  have "n < 2 ^ 32" unfolding n_def using unsigned_less [of "width el", where ?'a = nat] by simp
  moreover have "(2::nat) ^ 32 \<le> 2 ^ 53" by (rule power_increasing) simp_all
  ultimately have n53: "n < 2 ^ 53" by linarith
  have "0 \<le> real n" by (rule of_nat_0_le_iff)
  then have "g * of_int (js_trunc (real n / g)) \<le> real n"
    using nz by (rule js_rem_le)
  then have "real n - (real n - g * of_int (js_trunc (real n / g))) \<le> real n" by simp
  then have "js_le (fl (real n - (real n - g * of_int (js_trunc (real n / g))))) (real n)"
    using n53 by (rule js_le_fl)
  then have "js_le (stageWidth slf) (real n)"
    using storeSettings_Inr [OF assms(1)] g nz unfolding n_def by simp
  moreover have "real n \<le> maxImageWidth (hd (thresholds st))"
    using small unfolding n_def by (simp add: spec_smallImage_def)
  ultimately show ?thesis by (rule js_le_trans)
qed

text \<open>When the grid size is zero or \<^verbatim>\<open>NaN\<close> the stage width is \<^verbatim>\<open>NaN\<close> and the scaler
  does not round; the product is then zero or \<^verbatim>\<open>NaN\<close>, which \<^verbatim>\<open>Math.round\<close> returns as
  it is.\<close>

lemma degenerate_product:
  "g = Num 0 \<or> g = NaN \<Longrightarrow> Math_round (js_mul v (js_div g ob)) = js_mul v (js_div g ob)"
  by (auto simp: fl_def)

text \<open>
  C2 (as amended).  For every value \<open>v\<close>, the scaler of an initialised plugin returns the
  product \<open>v * brickRatio\<close>, which is a double, rounded by \<^verbatim>\<open>Math.round\<close> exactly when the
  stage width, which is the image width less its remainder by the grid size, is at most the
  first threshold's \<open>maxImageWidth\<close>, and the product itself otherwise.  For every image whose
  own width is at most that bound the result is the rounded product.
\<close>

theorem getScaledValue_rounds_by_stageWidth:
  assumes "storeSettings el st = Inr slf"
  shows "getScaledValue slf v =
           Inr (spec_scale v (brickRatio slf)
                  (js_le (stageWidth slf) (maxImageWidth (hd (thresholds st)))))
       \<and> stageWidth slf =
           js_sub (real (unat (width el))) (js_rem (Num (real (unat (width el)))) (gridSize slf))
       \<and> (spec_smallImage el (thresholds st)
            \<longrightarrow> getScaledValue slf v = Inr (Math_round (js_mul v (brickRatio slf))))"
proof -
  note s = storeSettings_Inr [OF assms]
  from s have "thresholds st \<noteq> []" by (auto simp: getGridSize_empty)
  then obtain t0 ts where ths: "thresholds st = t0 # ts" by (cases "thresholds st") auto
  have a: "getScaledValue slf v =
           Inr (spec_scale v (brickRatio slf)
                  (js_le (stageWidth slf) (maxImageWidth (hd (thresholds st)))))"
    using s ths by (simp add: getScaledValue_def spec_scale_def)
  have b: "getScaledValue slf v = Inr (Math_round (js_mul v (brickRatio slf)))"
    if small: "spec_smallImage el (thresholds st)"
  proof (cases "gridSize slf = Num 0 \<or> gridSize slf = NaN")
    case True
    then have "Math_round (js_mul v (brickRatio slf)) = js_mul v (brickRatio slf)"
      using s degenerate_product [of "gridSize slf" v "originalBricksize st"] by simp
    with a show ?thesis by (simp add: spec_scale_def)
  next
    case False
    with getGridSize_finite [of el "ratio st" "thresholds st" "gridSize slf"] s
    obtain g where g: "gridSize slf = Num g" "g \<noteq> 0" by (cases "gridSize slf") auto
    from a stage_small [OF assms g small] show ?thesis by (simp add: spec_scale_def)
  qed
  from a b s show ?thesis by blast
qed

theorem getScaledValue_rounds_by_stageWidth_witness:
  "storeSettings \<lparr>width = 280, height = 200, src = []\<rparr> defaults = Inr plugin280
   \<and> spec_smallImage \<lparr>width = 280, height = 200, src = []\<rparr> (thresholds defaults)
   \<and> js_mul 36 (brickRatio plugin280) = Num (1943334085783159 / 2 ^ 49)
   \<and> getScaledValue plugin280 36 = Inr (Num 3)"
proof -
  have a: "storeSettings \<lparr>width = 280, height = 200, src = []\<rparr> defaults = Inr plugin280"
    by (simp add: evaluate plugin280_def)
  have b: "js_mul 36 (brickRatio plugin280) = Num (1943334085783159 / 2 ^ 49)"
    by (simp add: plugin280_def fl_eval)
  have c: "spec_smallImage \<lparr>width = 280, height = 200, src = []\<rparr> (thresholds defaults)"
    by (simp add: spec_smallImage_def defaults_def)
  from getScaledValue_rounds_by_stageWidth [OF a, of 36] a b c show ?thesis
    by (simp add: spec_scale_def plugin280_def defaults_def js_trunc_def fl_eval)
qed

text \<open>
  C2 as stated fails for an image a little wider than the first threshold.  With the default
  settings and a width of 301 the grid size is 15 and the stage width is
  \<open>301 - 301 % 15 = 300\<close>, which passes the test \<open>stageWidth \<le> 300\<close>: the scaler returns
  \<open>Math.round(15/73) = 0\<close> for the value 1, where the claim, the image not being small,
  has the unrounded product, the double of \<open>15/73\<close>.
\<close>

theorem getScaledValue_rounds_large_image:
  "storeSettings \<lparr>width = 301, height = 200, src = []\<rparr> defaults = Inr plugin301
   \<and> \<not> spec_smallImage \<lparr>width = 301, height = 200, src = []\<rparr> (thresholds defaults)
   \<and> getScaledValue plugin301 1 = Inr (Num 0)
   \<and> spec_scale 1 (brickRatio plugin301)
        (spec_smallImage \<lparr>width = 301, height = 200, src = []\<rparr> (thresholds defaults)) =
      Num (3701588734825065 / 2 ^ 54)
   \<and> getScaledValue plugin301 1 \<noteq>
      Inr (spec_scale 1 (brickRatio plugin301)
        (spec_smallImage \<lparr>width = 301, height = 200, src = []\<rparr> (thresholds defaults)))"
  by (simp add: evaluate plugin301_def spec_smallImage_def spec_scale_def)

text \<open>\<^verbatim>\<open>Math.round\<close> is applied to the computed product.  With \<open>originalBricksize\<close> 22
  and a width of 301 the brick ratio is the double of \<open>15/22\<close>; the product with 11, which is
  \<open>7.5\<close> in exact arithmetic, is computed as \<open>7.499999999999999\<close> and rounded to 7.  With
  \<open>originalBricksize\<close> 10 and a width of 280 the product of 45 and the double of \<open>7/10\<close> is
  \<open>31.499999999999996\<close>, rounded to 31.\<close>

lemma getScaledValue_rounds_computed_product:
  "(case storeSettings \<lparr>width = 301, height = 200, src = []\<rparr> (defaults\<lparr>originalBricksize := 22\<rparr>) of
      Inl e \<Rightarrow> Inl e
    | Inr slf \<Rightarrow> getScaledValue slf 11) = Inr (Num 7)"
  "(case storeSettings \<lparr>width = 280, height = 200, src = []\<rparr> (defaults\<lparr>originalBricksize := 10\<rparr>) of
      Inl e \<Rightarrow> Inl e
    | Inr slf \<Rightarrow> getScaledValue slf 45) = Inr (Num 31)"
  by (simp_all add: evaluate)





text \<open>The restriction to products outside the subnormal range is needed.  With an image of
  1000 by 750 pixels and the default settings the scaler does not round; the scaled value of
  \<open>2\<^sup>-\<^sup>1\<^sup>0\<^sup>7\<^sup>4\<close> is 0, and the scaled value of twice as much is \<open>2\<^sup>-\<^sup>1\<^sup>0\<^sup>7\<^sup>4\<close>, not \<open>2 * 0\<close>.\<close>

lemma getScaledValue_subnormal_not_linear:
  "\<not> js_le (stageWidth plugin1000) (maxImageWidth (hd (thresholds plugin1000)))
   \<and> \<not> normalProduct (1 / 2 ^ 1074) (brickRatio plugin1000)
   \<and> getScaledValue plugin1000 (1 / 2 ^ 1074) = Inr (Num 0)
   \<and> getScaledValue plugin1000 (2 * (1 / 2 ^ 1074)) = Inr (Num (1 / 2 ^ 1074))
   \<and> js_mul 2 (Num 0) = Num 0"
proof -
  have a: "\<not> js_le (stageWidth plugin1000) (maxImageWidth (hd (thresholds plugin1000)))"
    by (simp add: plugin1000_def defaults_def)
  have b: "\<not> normalProduct (1 / 2 ^ 1074) (brickRatio plugin1000)"
    by (simp add: plugin1000_def power_int_minus field_simps)
  have unrounded: "getScaledValue plugin1000 v = Inr (js_mul v (brickRatio plugin1000))" for v
    by (simp add: getScaledValue_def plugin1000_def defaults_def)
  have r: "brickRatio plugin1000 = Num (6169314558041775 / 2 ^ 54)"
    by (simp add: plugin1000_def)
  have c: "getScaledValue plugin1000 (1 / 2 ^ 1074) = Inr (Num 0)"
    by (simp only: unrounded r js_mul.simps subnormal_products)
  have d: "getScaledValue plugin1000 (2 * (1 / 2 ^ 1074)) = Inr (Num (1 / 2 ^ 1074))"
    by (simp only: unrounded r js_mul.simps subnormal_products)
  have e: "js_mul 2 (Num 0) = Num 0" by (simp add: fl_def)
  from a b c d e show ?thesis by (simp only: simp_thms)
qed

section \<open>Properties of the pipeline\<close>

lemma precedes_append:
  "precedes a b (xs @ ys) = (precedes a b xs \<and> (a \<in> set xs \<or> precedes a b ys))"
  by (induction xs) auto

lemmas handlers =
  process_def removenoiseCallback_def timeoutCallback_def paintBrickPattern_def
  scratchImageLoad_def onImageError_def onEffectError_def setProcessing_def call_def fired_def

lemma init_Started:
  "init el st pg = Started s0 \<Longrightarrow>
     \<not> isProcessing pg \<and> storeSettings el st = Inr (self s0) \<and> processing s0 = Some True \<and>
     journal s0 =
       [Call (ImageProcessor (gridSize (self s0)) (stageWidth (self s0)) (stageHeight (self s0)))] \<and>
     sourcePending s0 \<and> \<not> noisePending s0 \<and> \<not> timerPending s0 \<and> \<not> mosaicPending s0 \<and>
     \<not> scratchPending s0 \<and> loadHandler s0 = None"
  by (auto simp: init_def Let_def setProcessing_def split: if_splits sum.splits)

lemma runInvariant_init: "init el st pg = Started s0 \<Longrightarrow> runInvariant (gridSize (self s0)) s0"
  by (drule init_Started) (simp add: runInvariant_def pendingCount_def)

lemma runInvariant_step:
  assumes inv: "runInvariant g s"
  shows "runInvariant g (step e s)"
proof (cases e)
  case ImageLoaded
  with inv show ?thesis unfolding runInvariant_def pendingCount_def
    by (simp add: handlers precedes_append split: if_splits)
next
  case ImageLoadError
  with inv show ?thesis unfolding runInvariant_def pendingCount_def
    by (simp add: handlers precedes_append split: if_splits)
next
  case EffectError
  with inv show ?thesis unfolding runInvariant_def pendingCount_def
    by (simp add: handlers precedes_append split: if_splits)
next
  case (EffectDone eff)
  with inv show ?thesis unfolding runInvariant_def pendingCount_def
    by (cases eff) (simp_all add: handlers precedes_append Let_def split: if_splits)
next
  case Timeout
  with inv show ?thesis unfolding runInvariant_def pendingCount_def
    by (simp add: handlers precedes_append split: if_splits)
next
  case ScratchImageLoaded
  show ?thesis
  proof (cases "loadHandler s")
    case None
    with inv ScratchImageLoaded show ?thesis unfolding runInvariant_def pendingCount_def
      by (simp add: handlers precedes_append split: if_splits)
  next
    case (Some operation)
    with inv ScratchImageLoaded show ?thesis unfolding runInvariant_def pendingCount_def
      by (cases operation) (simp_all add: handlers precedes_append Let_def split: if_splits)
  qed
qed

lemma runInvariant_runEvents: "runInvariant g s \<Longrightarrow> runInvariant g (runEvents evs s)"
  by (induction evs arbitrary: s) (simp_all add: runInvariant_step)

lemma runInvariant_reachable:
  "init el st pg = Started s0 \<Longrightarrow> runInvariant (gridSize (self s0)) (runEvents evs s0)"
  by (intro runInvariant_runEvents runInvariant_init)

lemma idle_step:
  assumes "idle s"
  shows "step e s = s"
proof (cases e)
  case (EffectDone eff)
  with assms show ?thesis by (cases eff) (auto simp: idle_def)
qed (use assms in \<open>auto simp: idle_def\<close>)

lemma idle_runEvents: "idle s \<Longrightarrow> runEvents evs s = s"
  by (induction evs) (simp_all add: idle_step)

lemma init_started280:
  "init \<lparr>width = 280, height = 200, src = []\<rparr> defaults \<lparr>processing = None\<rparr> = Started started280"
  by (simp add: init_def isProcessing_def setProcessing_def started280_def plugin280_def evaluate)

text \<open>The journal of a complete run.\<close>

lemma journal_completeRun:
  "journal (runEvents completeRun started280) =
     [Call (ImageProcessor (Num 7) (Num 280) (Num 196)),
      Fired ImageLoaded, Call (ApplyEffect removenoise),
      Fired (EffectDone removenoise), Call (SetTimeout 100),
      Fired Timeout, Call (ApplyEffect mosaic),
      Fired (EffectDone mosaic), Call GetBitmap, Call StageAddChild, Call StageUpdate, Call OnLoad,
      Call (BuildArtwork ShadowDataURL), Call (SetSrc ShadowDataURL),
      Fired ScratchImageLoaded, Call CreatePattern, Call (SetGlobalCompositeOperation multiply),
      Call SetFillStyle, Call (FillRect 0 0 (Num 280) (Num 196)),
      Call (SetScratchCompositeOperation multiply), Call ScratchAddChild,
      Call (BuildGrid (Num 7) ''#c0c0c0'' (1 / 2)),
      Call (BuildArtwork HighlightDataURL), Call (SetSrc HighlightDataURL),
      Fired ScratchImageLoaded, Call CreatePattern, Call (SetGlobalCompositeOperation lighter),
      Call SetFillStyle, Call (FillRect 0 0 (Num 280) (Num 196)),
      Call OffLoad, Call StageToDataURL, Call (SetSrc StageDataURL), Call MoveOnscreen, Call Destroy,
      Call (Trigger ''image:brickified''),
      Fired ScratchImageLoaded]"
  by (simp add: completeRun_def started280_def plugin280_def handlers Let_def)

text \<open>A run in which every callback fires goes through all the stages, clears the flag
  and triggers \<^verbatim>\<open>image:brickified\<close>.\<close>

lemma complete_run:
  assumes "init el st pg = Started s0"
  shows "journal (runEvents completeRun s0) =
     [Call (ImageProcessor (gridSize (self s0)) (stageWidth (self s0)) (stageHeight (self s0))),
      Fired ImageLoaded, Call (ApplyEffect removenoise),
      Fired (EffectDone removenoise), Call (SetTimeout 100),
      Fired Timeout, Call (ApplyEffect mosaic),
      Fired (EffectDone mosaic), Call GetBitmap, Call StageAddChild, Call StageUpdate, Call OnLoad,
      Call (BuildArtwork ShadowDataURL), Call (SetSrc ShadowDataURL),
      Fired ScratchImageLoaded, Call CreatePattern, Call (SetGlobalCompositeOperation multiply),
      Call SetFillStyle, Call (FillRect 0 0 (stageWidth (self s0)) (stageHeight (self s0))),
      Call (SetScratchCompositeOperation multiply), Call ScratchAddChild,
      Call (BuildGrid (gridSize (self s0)) ''#c0c0c0'' (1 / 2)),
      Call (BuildArtwork HighlightDataURL), Call (SetSrc HighlightDataURL),
      Fired ScratchImageLoaded, Call CreatePattern, Call (SetGlobalCompositeOperation lighter),
      Call SetFillStyle, Call (FillRect 0 0 (stageWidth (self s0)) (stageHeight (self s0))),
      Call OffLoad, Call StageToDataURL, Call (SetSrc StageDataURL), Call MoveOnscreen, Call Destroy,
      Call (Trigger ''image:brickified''),
      Fired ScratchImageLoaded]
   \<and> processing (runEvents completeRun s0) = Some False"
  using init_Started [OF assms] by (simp add: completeRun_def handlers Let_def)

text \<open>
  C9.  In the journal of a run, whatever events arrive: the mosaic is started only after the
  callback of the noise removal has fired; the shadow artwork is built and the shadow pass
  (the \<^verbatim>\<open>multiply\<close> fill) is drawn only after the callback of the mosaic has fired; the
  highlight artwork is built and the highlight pass (the \<^verbatim>\<open>lighter\<close> fill) is drawn only
  after the shadow pass has ended with the drawing of the grid.  Each stage begins in the
  callback of the one before: the noise removal after the image has loaded, the timer in the
  callback of the noise removal, the mosaic in the callback of the timer, and each pass after
  its artwork has been assigned to the scratch image.
\<close>

theorem stages_in_order:
  assumes "init el st pg = Started s0"
  shows "precedes (Fired (EffectDone removenoise)) (Call (ApplyEffect mosaic))
            (journal (runEvents evs s0))
       \<and> precedes (Fired (EffectDone mosaic)) (Call (BuildArtwork ShadowDataURL))
            (journal (runEvents evs s0))
       \<and> precedes (Fired (EffectDone mosaic)) (Call (SetGlobalCompositeOperation multiply))
            (journal (runEvents evs s0))
       \<and> precedes (Call (BuildGrid (gridSize (self s0)) ''#c0c0c0'' (1 / 2)))
            (Call (BuildArtwork HighlightDataURL)) (journal (runEvents evs s0))
       \<and> precedes (Call (BuildGrid (gridSize (self s0)) ''#c0c0c0'' (1 / 2)))
            (Call (SetGlobalCompositeOperation lighter)) (journal (runEvents evs s0))
       \<and> precedes (Fired ImageLoaded) (Call (ApplyEffect removenoise))
            (journal (runEvents evs s0))
       \<and> precedes (Fired (EffectDone removenoise)) (Call (SetTimeout 100))
            (journal (runEvents evs s0))
       \<and> precedes (Fired Timeout) (Call (ApplyEffect mosaic))
            (journal (runEvents evs s0))
       \<and> precedes (Call (SetSrc ShadowDataURL)) (Call (SetGlobalCompositeOperation multiply))
            (journal (runEvents evs s0))
       \<and> precedes (Call (SetSrc HighlightDataURL)) (Call (SetGlobalCompositeOperation lighter))
            (journal (runEvents evs s0))"
  using runInvariant_reachable [OF assms, of evs] unfolding runInvariant_def by blast

theorem stages_in_order_witness:
  "init \<lparr>width = 280, height = 200, src = []\<rparr> defaults \<lparr>processing = None\<rparr> = Started started280
   \<and> Call (ApplyEffect mosaic) \<in> set (journal (runEvents completeRun started280))
   \<and> Call (SetGlobalCompositeOperation multiply) \<in> set (journal (runEvents completeRun started280))
   \<and> Call (SetGlobalCompositeOperation lighter) \<in> set (journal (runEvents completeRun started280))
   \<and> precedes (Fired (EffectDone removenoise)) (Call (ApplyEffect mosaic))
        (journal (runEvents completeRun started280))
   \<and> precedes (Fired (EffectDone mosaic)) (Call (SetGlobalCompositeOperation multiply))
        (journal (runEvents completeRun started280))
   \<and> precedes (Call (BuildGrid (Num 7) ''#c0c0c0'' (1 / 2))) (Call (SetGlobalCompositeOperation lighter))
        (journal (runEvents completeRun started280))"
proof -
  have g: "gridSize (self started280) = Num 7" by (simp add: started280_def plugin280_def)
  from stages_in_order [OF init_started280, of completeRun] init_started280 show ?thesis
    unfolding g by (simp add: journal_completeRun)
qed

text \<open>
  C3.  \<^verbatim>\<open>_onEffectError\<close> sets the flag to false and does nothing else.  When the image
  processor reports an effect error while an effect of the run is awaited, the flag becomes
  false, the journal grows by the event alone, and no later event changes the state: every
  call of the run is one made before any painting, so no artwork is drawn and
  \<^verbatim>\<open>image:brickified\<close> is not triggered.
\<close>

theorem effectError_clears_flag_and_stops:
  assumes "init el st pg = Started s0" and "s = runEvents evs s0"
    and "noisePending s \<or> mosaicPending s"
  shows "onEffectError s = s\<lparr>processing := Some False\<rparr>
       \<and> processing (step EffectError s) = Some False
       \<and> journal (step EffectError s) = journal s @ [Fired EffectError]
       \<and> runEvents evs' (step EffectError s) = step EffectError s
       \<and> list_all setupOnly (journal (runEvents evs' (step EffectError s)))"
proof -
  have inv: "runInvariant (gridSize (self s0)) s"
    unfolding assms(2) using assms(1) by (rule runInvariant_reachable)
  have a: "onEffectError s = s\<lparr>processing := Some False\<rparr>"
    by (simp add: onEffectError_def setProcessing_def)
  have b: "processing (step EffectError s) = Some False"
    using assms(3) by (auto simp: handlers)
  have c: "journal (step EffectError s) = journal s @ [Fired EffectError]"
    using assms(3) by (auto simp: handlers)
  have "idle (step EffectError s)"
    using inv assms(3) unfolding runInvariant_def pendingCount_def idle_def
    by (auto simp: handlers split: if_splits)
  then have d: "runEvents evs' (step EffectError s) = step EffectError s"
    by (rule idle_runEvents)
  have e: "list_all setupOnly (journal s)"
    using inv assms(3) unfolding runInvariant_def by blast
  show ?thesis using a b c d e by simp
qed

theorem effectError_clears_flag_and_stops_witness:
  "init \<lparr>width = 280, height = 200, src = []\<rparr> defaults \<lparr>processing = None\<rparr> = Started started280
   \<and> mosaicPending (runEvents [ImageLoaded, EffectDone removenoise, Timeout] started280)
   \<and> processing (runEvents [ImageLoaded, EffectDone removenoise, Timeout, EffectError] started280)
       = Some False
   \<and> journal (runEvents [ImageLoaded, EffectDone removenoise, Timeout, EffectError,
                          EffectDone mosaic, ScratchImageLoaded] started280) =
       [Call (ImageProcessor (Num 7) (Num 280) (Num 196)),
        Fired ImageLoaded, Call (ApplyEffect removenoise),
        Fired (EffectDone removenoise), Call (SetTimeout 100),
        Fired Timeout, Call (ApplyEffect mosaic),
        Fired EffectError]"
proof -
  have m: "noisePending (runEvents [ImageLoaded, EffectDone removenoise, Timeout] started280)
         \<or> mosaicPending (runEvents [ImageLoaded, EffectDone removenoise, Timeout] started280)"
    by (simp add: started280_def handlers)
  from effectError_clears_flag_and_stops [OF init_started280 refl m,
      of "[EffectDone mosaic, ScratchImageLoaded]"] init_started280
  show ?thesis by (simp add: started280_def handlers)
qed

lemma imageError_idle:
  assumes "init el st pg = Started s0"
  shows "idle (step ImageLoadError s0) \<and> processing (step ImageLoadError s0) = Some True"
  using init_Started [OF assms] by (simp add: idle_def handlers)

text \<open>
  C4.  \<^verbatim>\<open>_onImageError\<close> sets the element's width and height to 34 and its source to the
  broken-image icon, and leaves the flag as it is.  When the source image of a run fails to
  load, the flag, which \<^verbatim>\<open>init\<close> has set, is still set after the handler and after every
  later event.
\<close>

theorem imageError_placeholder_keeps_flag:
  assumes "init el st pg = Started s0"
  shows "element (self (onImageError s)) = \<lparr>width = 34, height = 34, src = brokenImage\<rparr>
       \<and> processing (onImageError s) = processing s
       \<and> journal (onImageError s) = journal s
       \<and> element (self (step ImageLoadError s0)) = \<lparr>width = 34, height = 34, src = brokenImage\<rparr>
       \<and> processing (step ImageLoadError s0) = Some True
       \<and> isProcessing (runEvents evs (step ImageLoadError s0))"
proof -
  note i = init_Started [OF assms]
  have a: "element (self (onImageError t)) = \<lparr>width = 34, height = 34, src = brokenImage\<rparr>" for t
    by (simp add: onImageError_def)
  have b: "processing (onImageError s) = processing s \<and> journal (onImageError s) = journal s"
    by (simp add: onImageError_def)
  note c = imageError_idle [OF assms]
  then have "runEvents evs (step ImageLoadError s0) = step ImageLoadError s0"
    by (simp add: idle_runEvents)
  then have d: "isProcessing (runEvents evs (step ImageLoadError s0))"
    using c by (simp add: isProcessing_def)
  have e: "element (self (step ImageLoadError s0)) = \<lparr>width = 34, height = 34, src = brokenImage\<rparr>"
    using i a by (simp add: fired_def)
  show ?thesis using a b c d e by simp
qed

theorem imageError_placeholder_keeps_flag_witness:
  "init \<lparr>width = 280, height = 200, src = []\<rparr> defaults \<lparr>processing = None\<rparr> = Started started280
   \<and> element (self (runEvents [ImageLoadError] started280)) =
       \<lparr>width = 34, height = 34, src = brokenImage\<rparr>
   \<and> processing (runEvents [ImageLoadError, ImageLoaded, EffectDone removenoise] started280)
       = Some True"
  using imageError_placeholder_keeps_flag
    [OF init_started280, of started280 "[ImageLoaded, EffectDone removenoise]"] init_started280
  by (simp add: isProcessing_def)

text \<open>After a failed load, a later \<^verbatim>\<open>init\<close> on the page finds the flag set and only
  schedules itself again.\<close>

lemma imageError_blocks_next_init:
  assumes "init el st pg = Started s0"
  shows "init el' st' \<lparr>processing = processing (runEvents evs (step ImageLoadError s0))\<rparr> =
           Retry 1000 \<lparr>processing = Some True\<rparr>"
  using imageError_idle [OF assms] by (simp add: idle_runEvents init_def isProcessing_def)

end
